theory Spec2Isabelle
  imports Complex_Main
begin

section \<open>Python values, exceptions and string helpers\<close>

text \<open>
  The two programs of the repository, \<^verbatim>\<open>ddiff.py\<close> (diff, pack and replay of an
  image against a registry) and \<^verbatim>\<open>hub2registry.py\<close> (seeding a registry store
  from Docker Hub), are embedded as HOL functions. A Python exception is the
  \<open>Inl\<close> branch of a sum, a function with effects takes the state and returns it updated,
  and every call of the network or of a library that the repository does not contain
  (\<^verbatim>\<open>json.loads\<close>, \<^verbatim>\<open>hashlib.sha256\<close>, the HTTP server) is a parameter.
\<close>

datatype exn =
    RuntimeError
  | ValueError
  | TypeError
  | AttributeError
  | KeyError
  | IndexError
  | FileNotFoundError
  | JSONDecodeError
  | HTTPError "nat option"
  | URLError
  | ConnectionError
  | Timeout
  | OtherError

text \<open>
  A parsed JSON document, as \<^verbatim>\<open>json.loads\<close> returns it: \<open>JObj\<close> is a Python dict
  (looked up with \<open>map_of\<close>), \<open>JArr\<close> a list, \<open>JNum\<close> an integer (JSON numbers with
  a fraction are left out of the model).
\<close>

datatype json =
    JNull
  | JBool bool
  | JNum int
  | JStr string
  | JArr "json list"
  | JObj "(string \<times> json) list"

text \<open>Sequencing of computations that may raise.\<close>

definition and_then :: "exn + 'a \<Rightarrow> ('a \<Rightarrow> exn + 'b) \<Rightarrow> exn + 'b" where
  "and_then r f = (case r of Inl e \<Rightarrow> Inl e | Inr v \<Rightarrow> f v)"

text \<open>\<^verbatim>\<open>sub in s\<close> for two strings.\<close>

fun contains :: "string \<Rightarrow> string \<Rightarrow> bool" where
  "contains sub [] = (sub = [])"
| "contains sub (c # cs) = (take (length sub) (c # cs) = sub \<or> contains sub cs)"

text \<open>\<^verbatim>\<open>s.split(sep)\<close> for a separator of one character.\<close>

fun split :: "char \<Rightarrow> string \<Rightarrow> string list" where
  "split sep [] = [[]]"
| "split sep (c # cs) =
     (if c = sep then [] # split sep cs
      else (case split sep cs of [] \<Rightarrow> [[c]] | w # ws \<Rightarrow> (c # w) # ws))"

text \<open>\<^verbatim>\<open>s.split(sep, 1)\<close>: cut at the first separator only.\<close>

definition split1 :: "char \<Rightarrow> string \<Rightarrow> string list" where
  "split1 sep s =
     (if sep \<in> set s then [takeWhile (\<lambda>c. c \<noteq> sep) s, tl (dropWhile (\<lambda>c. c \<noteq> sep) s)]
      else [s])"

text \<open>\<^verbatim>\<open>sep.join(xs)\<close>.\<close>

fun join :: "string \<Rightarrow> string list \<Rightarrow> string" where
  "join sep [] = []"
| "join sep [x] = x"
| "join sep (x # y # ys) = x @ sep @ join sep (y # ys)"

text \<open>
  \<^verbatim>\<open>s.strip()\<close>: the ASCII characters for which \<^verbatim>\<open>str.isspace\<close> holds are removed
  at both ends (the whitespace of Unicode beyond ASCII is outside the model).
\<close>

definition isspace :: "char \<Rightarrow> bool" where
  "isspace c = (let n = (of_char c :: nat) in n = 32 \<or> (9 \<le> n \<and> n \<le> 13) \<or> (28 \<le> n \<and> n \<le> 31))"

definition strip :: "string \<Rightarrow> string" where
  "strip s = rev (dropWhile isspace (rev (dropWhile isspace s)))"

text \<open>\<^verbatim>\<open>s.replace(old, new)\<close> for a non-empty \<open>old\<close>, scanning from the left.\<close>

fun replace :: "string \<Rightarrow> string \<Rightarrow> string \<Rightarrow> string" where
  "replace old new [] = []"
| "replace old new (c # cs) =
     (if old \<noteq> [] \<and> take (length old) (c # cs) = old
      then new @ replace old new (drop (length old - 1) cs)
      else c # replace old new cs)"

subsection \<open>Python operations on JSON values\<close>

text \<open>Truth value of an object, as \<^verbatim>\<open>if x\<close> and \<^verbatim>\<open>x and y\<close> test it.\<close>

fun truthy :: "json \<Rightarrow> bool" where
  "truthy JNull = False"
| "truthy (JBool b) = b"
| "truthy (JNum n) = (n \<noteq> 0)"
| "truthy (JStr s) = (s \<noteq> [])"
| "truthy (JArr xs) = (xs \<noteq> [])"
| "truthy (JObj kvs) = (kvs \<noteq> [])"

text \<open>\<^verbatim>\<open>x.get(k, default)\<close>: only a dict has the method.\<close>

fun dict_get :: "json \<Rightarrow> string \<Rightarrow> json \<Rightarrow> exn + json" where
  "dict_get (JObj kvs) k dflt = Inr (case map_of kvs k of None \<Rightarrow> dflt | Some v \<Rightarrow> v)"
| "dict_get _ k dflt = Inl AttributeError"

text \<open>
  \<^verbatim>\<open>k in x\<close> for a string \<open>k\<close>: a key of a dict, an element of a list, a substring
  of a string; the other values are not iterable.
\<close>

fun py_in :: "string \<Rightarrow> json \<Rightarrow> exn + bool" where
  "py_in k (JObj kvs) = Inr (map_of kvs k \<noteq> None)"
| "py_in k (JArr xs) = Inr (JStr k \<in> set xs)"
| "py_in k (JStr s) = Inr (contains k s)"
| "py_in k _ = Inl TypeError"

text \<open>\<^verbatim>\<open>x[k]\<close> for a string \<open>k\<close>.\<close>

fun getitem :: "json \<Rightarrow> string \<Rightarrow> exn + json" where
  "getitem (JObj kvs) k = (case map_of kvs k of None \<Rightarrow> Inl KeyError | Some v \<Rightarrow> Inr v)"
| "getitem _ k = Inl TypeError"

text \<open>
  \<^verbatim>\<open>for x in v\<close>: the elements of a list, the keys of a dict, the characters of a
  string.
\<close>

fun py_iter :: "json \<Rightarrow> exn + json list" where
  "py_iter (JArr xs) = Inr xs"
| "py_iter (JObj kvs) = Inr (map (\<lambda>kv. JStr (fst kv)) kvs)"
| "py_iter (JStr s) = Inr (map (\<lambda>c. JStr [c]) s)"
| "py_iter _ = Inl TypeError"

section \<open>ddiff.py: manifests\<close>

definition DOCKER_MANIFEST_V2 :: string where
  "DOCKER_MANIFEST_V2 = ''application/vnd.docker.distribution.manifest.v2+json''"

definition DOCKER_MANIFEST_LIST_V2 :: string where
  "DOCKER_MANIFEST_LIST_V2 = ''application/vnd.docker.distribution.manifest.list.v2+json''"

definition OCI_MANIFEST_V1 :: string where
  "OCI_MANIFEST_V1 = ''application/vnd.oci.image.manifest.v1+json''"

definition OCI_INDEX_V1 :: string where
  "OCI_INDEX_V1 = ''application/vnd.oci.image.index.v1+json''"

definition SUPPORTED_MANIFEST_TYPES :: "string list" where
  "SUPPORTED_MANIFEST_TYPES = [DOCKER_MANIFEST_V2, OCI_MANIFEST_V1]"

definition ACCEPT_MANIFEST_TYPES :: string where
  "ACCEPT_MANIFEST_TYPES =
     join '', '' (SUPPORTED_MANIFEST_TYPES @ [DOCKER_MANIFEST_LIST_V2, OCI_INDEX_V1])"

text \<open>\<^verbatim>\<open>print_error\<close> prints its arguments and raises \<^verbatim>\<open>RuntimeError\<close>.\<close>

definition print_error :: "exn + 'a" where
  "print_error = Inl RuntimeError"

definition validate_manifest_media_type :: "json \<Rightarrow> exn + json" where
  "validate_manifest_media_type manifest =
     and_then (dict_get manifest ''mediaType'' (JStr '''')) (\<lambda>media_type.
       if media_type \<in> set [JStr DOCKER_MANIFEST_LIST_V2, JStr OCI_INDEX_V1] then print_error
       else if truthy media_type \<and> media_type \<notin> set (map JStr SUPPORTED_MANIFEST_TYPES)
         then print_error
       else Inr media_type)"

text \<open>The loop over the layers of \<^verbatim>\<open>_parse_blob_list\<close>; \<open>digests\<close> is the list so far.\<close>

fun parse_layers :: "json list \<Rightarrow> json list \<Rightarrow> exn + json list" where
  "parse_layers [] digests = Inr digests"
| "parse_layers (layer # rest) digests =
     and_then (py_in ''digest'' layer) (\<lambda>has.
       if has then and_then (getitem layer ''digest'') (\<lambda>d. parse_layers rest (digests @ [d]))
       else parse_layers rest digests)"

text \<open>
  \<^verbatim>\<open>_parse_blob_list\<close>; \<open>loads\<close> is \<^verbatim>\<open>json.loads\<close>, which returns the document
  or raises (\<open>None\<close>).
\<close>

definition parse_blob_list :: "(string \<Rightarrow> json option) \<Rightarrow> string \<Rightarrow> exn + json list" where
  "parse_blob_list loads manifest_str =
     (case loads manifest_str of
        None \<Rightarrow> Inl JSONDecodeError
      | Some manifest \<Rightarrow>
          and_then (validate_manifest_media_type manifest) (\<lambda>_.
          and_then (py_in ''config'' manifest) (\<lambda>has_config.
          and_then (if has_config
                    then and_then (getitem manifest ''config'') (\<lambda>config.
                         and_then (py_in ''digest'' config) (\<lambda>has_digest.
                           if has_digest
                           then and_then (getitem config ''digest'') (\<lambda>d. Inr [d])
                           else Inr []))
                    else Inr []) (\<lambda>digests.
          and_then (dict_get manifest ''layers'' (JArr [])) (\<lambda>layers.
          and_then (py_iter layers) (\<lambda>ls. parse_layers ls digests))))))"

section \<open>ddiff.py: the registry client\<close>

text \<open>
  What \<^verbatim>\<open>urllib.request.urlopen\<close> is given and what it gives back. A response carries
  its status, its headers and its body; the flag tells whether the body can be read to
  its end (when it is \<open>False\<close>, reading raises after the bytes given). \<open>HTTPErr\<close> is
  \<^verbatim>\<open>urllib.error.HTTPError\<close> with its code, \<open>URLErr\<close> any other exception of the call.
\<close>

datatype http_method = GET | POST | PUT

datatype request = Request http_method string "(string \<times> string) list" "string option"

datatype response = Response nat "(string \<times> string) list" string bool

datatype urlopen_result = Opened response | HTTPErr nat | URLErr

text \<open>
  The state the program works on. \<open>staging\<close> is the directory \<^verbatim>\<open>.ddiff-image\<close> of the
  working directory: \<open>None\<close> when it does not exist, otherwise its files by their path
  below it. \<open>archives\<close> are the package archives of the working directory by file name,
  each with the files of its \<^verbatim>\<open>.ddiff-image\<close> tree. \<open>requests\<close> are the HTTP requests
  sent so far and \<open>commands\<close> the shell commands run, oldest first.
\<close>

record world =
  staging :: "(string \<rightharpoonup> string) option"
  archives :: "string \<rightharpoonup> (string \<rightharpoonup> string)"
  requests :: "request list"
  commands :: "string list"

text \<open>
  What the program reads from outside: the module-level settings, \<^verbatim>\<open>json.loads\<close>, the
  registry (its answer to a request, given the requests before it) and the order in which
  Python iterates over a set (given its elements).
\<close>

record env =
  ddiff_url :: string
  ddiff_disable_repository :: bool
  loads :: "string \<Rightarrow> json option"
  registry :: "request list \<Rightarrow> request \<Rightarrow> urlopen_result"
  set_order :: "json list \<Rightarrow> json list"

definition ddiff_url_base :: "env \<Rightarrow> string" where
  "ddiff_url_base e =
     replace ''//'' ''/'' (replace ''http://'' '''' (replace ''https://'' '''' (ddiff_url e)))"

text \<open>Computations with effects: the state goes in, the result or the exception comes out
  with the new state.\<close>

type_synonym ('a, 's) io = "'s \<Rightarrow> (exn + 'a) \<times> 's"

definition seq :: "('a, 's) io \<Rightarrow> ('a \<Rightarrow> ('b, 's) io) \<Rightarrow> ('b, 's) io" where
  "seq m f w = (case m w of (Inl e, w') \<Rightarrow> (Inl e, w') | (Inr v, w') \<Rightarrow> f v w')"

definition ret :: "'a \<Rightarrow> ('a, 's) io" where
  "ret v w = (Inr v, w)"

definition raise :: "exn \<Rightarrow> ('a, 's) io" where
  "raise e w = (Inl e, w)"

definition lift :: "exn + 'a \<Rightarrow> ('a, 's) io" where
  "lift r w = (r, w)"

definition modify :: "('s \<Rightarrow> 's) \<Rightarrow> (unit, 's) io" where
  "modify f w = (Inr (), f w)"

text \<open>A loop \<^verbatim>\<open>for x in xs: body(x)\<close>: the first exception ends it.\<close>

fun for_each :: "'a list \<Rightarrow> ('a \<Rightarrow> (unit, 's) io) \<Rightarrow> (unit, 's) io" where
  "for_each [] body = ret ()"
| "for_each (x # xs) body = seq (body x) (\<lambda>_. for_each xs body)"

definition urlopen :: "env \<Rightarrow> request \<Rightarrow> world \<Rightarrow> urlopen_result \<times> world" where
  "urlopen e req w = (registry e (requests w) req, w\<lparr>requests := requests w @ [req]\<rparr>)"

definition run_command :: "string \<Rightarrow> (unit, world) io" where
  "run_command cmd = modify (\<lambda>w. w\<lparr>commands := commands w @ [cmd]\<rparr>)"

definition prepare_tag :: "env \<Rightarrow> string \<Rightarrow> string" where
  "prepare_tag e tag =
     (let tag1 = (if ddiff_disable_repository e then replace ''/'' ''-'' tag else tag)
      in if CHR '':'' \<notin> set tag1 then tag1 @ '':latest'' else tag1)"

definition request_manifest :: "env \<Rightarrow> string \<Rightarrow> (string \<times> string, world) io" where
  "request_manifest e tag w =
     (case split CHR '':'' tag of
        [repo, version_tag] \<Rightarrow>
          (let manifest_url = ddiff_url e @ ''/v2/'' @ repo @ ''/manifests/'' @ version_tag;
               req = Request GET manifest_url [(''Accept'', ACCEPT_MANIFEST_TYPES)] None
           in case urlopen e req w of
                (Opened (Response status headers body whole), w') \<Rightarrow>
                  if whole
                  then (Inr (body,
                         hd (split CHR '';''
                           (case map_of headers ''Content-Type'' of None \<Rightarrow> '''' | Some ct \<Rightarrow> ct))),
                        w')
                  else (print_error, w')
              | (HTTPErr code, w') \<Rightarrow> (print_error, w')
              | (URLErr, w') \<Rightarrow> (print_error, w'))
      | _ \<Rightarrow> (Inl ValueError, w))"

text \<open>The pattern \<^verbatim>\<open>^[a-z0-9_+.-]+:[a-fA-F0-9]+$\<close> of \<^verbatim>\<open>_download_blob\<close>, tried with
  \<^verbatim>\<open>re.match\<close>: \<^verbatim>\<open>$\<close> also matches before one newline at the end.\<close>

definition digest_format :: "string \<Rightarrow> bool" where
  "digest_format digest =
     (let d = (if digest \<noteq> [] \<and> last digest = CHR 0x0A then butlast digest else digest);
          algo = takeWhile (\<lambda>c. c \<noteq> CHR '':'') d;
          rest = dropWhile (\<lambda>c. c \<noteq> CHR '':'') d
      in algo \<noteq> [] \<and> list_all (\<lambda>c. c \<in> set ''abcdefghijklmnopqrstuvwxyz0123456789_+.-'') algo
         \<and> rest \<noteq> [] \<and> tl rest \<noteq> []
         \<and> list_all (\<lambda>c. c \<in> set ''abcdefABCDEF0123456789'') (tl rest))"

text \<open>\<^verbatim>\<open>open(path, "w")\<close> and \<^verbatim>\<open>f.write(content)\<close> on a file of the staging directory.\<close>

definition write_file :: "string \<Rightarrow> string \<Rightarrow> (unit, world) io" where
  "write_file path content w =
     (case staging w of
        None \<Rightarrow> (Inl FileNotFoundError, w)
      | Some files \<Rightarrow> (Inr (), w\<lparr>staging := Some (files(path \<mapsto> content))\<rparr>))"

definition read_file :: "string \<Rightarrow> (string, world) io" where
  "read_file path w =
     (case staging w of
        None \<Rightarrow> (Inl FileNotFoundError, w)
      | Some files \<Rightarrow>
          (case files path of None \<Rightarrow> (Inl FileNotFoundError, w) | Some content \<Rightarrow> (Inr content, w)))"

text \<open>\<^verbatim>\<open>_download_blob\<close>, with \<open>output_path\<close> below the staging directory. The digest
  is an element of a blob list and so a JSON value: \<^verbatim>\<open>re.match\<close> raises on anything
  but a string.\<close>

definition download_blob :: "env \<Rightarrow> string \<Rightarrow> json \<Rightarrow> string \<Rightarrow> (unit, world) io" where
  "download_blob e repo digest_v output_path w =
     (case digest_v of
        JStr digest \<Rightarrow>
          if \<not> digest_format digest then (print_error, w)
          else
            (let blob_url = ddiff_url e @ ''/v2/'' @ repo @ ''/blobs/'' @ digest;
                 out_file = output_path @ ''/'' @ digest @ ''.tar''
             in case urlopen e (Request GET blob_url [] None) w of
                  (Opened (Response status headers body whole), w') \<Rightarrow>
                    (case write_file out_file body w' of
                       (Inl ex, w'') \<Rightarrow> (print_error, w'')
                     | (Inr _, w'') \<Rightarrow> if whole then (Inr (), w'') else (print_error, w''))
                | (HTTPErr code, w') \<Rightarrow> (print_error, w')
                | (URLErr, w') \<Rightarrow> (print_error, w'))
      | _ \<Rightarrow> (Inl TypeError, w))"

definition request_upload_session :: "env \<Rightarrow> string \<Rightarrow> (string option, world) io" where
  "request_upload_session e repo w =
     (let url = ddiff_url e @ ''/v2/'' @ repo @ ''/blobs/uploads/''
      in case urlopen e (Request POST url [] None) w of
           (Opened (Response status headers body whole), w') \<Rightarrow>
             (Inr (map_of headers ''Location''), w')
         | (HTTPErr code, w') \<Rightarrow> (print_error, w')
         | (URLErr, w') \<Rightarrow> (Inl URLError, w'))"

text \<open>\<^verbatim>\<open>urllib.parse.quote\<close> with its default safe characters: every other character
  becomes \<^verbatim>\<open>%XX\<close>.\<close>

definition quote :: "string \<Rightarrow> string" where
  "quote s = concat (map (\<lambda>c.
     if c \<in> set ''ABCDEFGHIJKLMNOPQRSTUVWXYZabcdefghijklmnopqrstuvwxyz0123456789_.-~/'' then [c]
     else [CHR ''%'', ''0123456789ABCDEF'' ! (of_char c div 16),
           ''0123456789ABCDEF'' ! (of_char c mod 16)]) s)"

definition upload_blob :: "env \<Rightarrow> string \<Rightarrow> string \<Rightarrow> string \<Rightarrow> (unit, world) io" where
  "upload_blob e repo digest blob_dir =
     seq (request_upload_session e repo) (\<lambda>session_url.
     seq (read_file (blob_dir @ ''/'' @ digest @ ''.tar'')) (\<lambda>data.
       case session_url of
         None \<Rightarrow> raise TypeError
       | Some session \<Rightarrow>
           (\<lambda>w. let delimiter = (if contains ''?'' session then ''&'' else ''?'');
                    full_url = session @ delimiter @ ''digest='' @ quote digest;
                    req = Request PUT full_url
                            [(''Content-Type'', ''application/octet-stream'')] (Some data)
                in case urlopen e req w of
                     (Opened r, w') \<Rightarrow> (Inr (), w')
                   | (HTTPErr code, w') \<Rightarrow> (print_error, w')
                   | (URLErr, w') \<Rightarrow> (Inl URLError, w'))))"

definition cross_mount :: "env \<Rightarrow> string \<Rightarrow> string \<Rightarrow> string \<Rightarrow> (unit, world) io" where
  "cross_mount e target_repo base_repo digest w =
     (let url = ddiff_url e @ ''/v2/'' @ target_repo @ ''/blobs/uploads/?mount='' @ digest
                  @ ''&from='' @ base_repo
      in case urlopen e (Request POST url [] None) w of
           (Opened (Response status headers body whole), w') \<Rightarrow>
             if status = 201 then (Inr (), w')
             else if status = 202 then (print_error, w')
             else (Inr (), w')
         | (HTTPErr code, w') \<Rightarrow> (print_error, w')
         | (URLErr, w') \<Rightarrow> (Inl URLError, w'))"

definition upload_manifest :: "env \<Rightarrow> string \<Rightarrow> string \<Rightarrow> string \<Rightarrow> (unit, world) io" where
  "upload_manifest e tag manifest_path manifest_media_type w =
     (case split CHR '':'' tag of
        [repo, version_tag] \<Rightarrow>
          (let url = ddiff_url e @ ''/v2/'' @ repo @ ''/manifests/'' @ version_tag
           in case read_file manifest_path w of
                (Inl ex, w') \<Rightarrow> (Inl ex, w')
              | (Inr data, w') \<Rightarrow>
                  (case urlopen e (Request PUT url [(''Content-Type'', manifest_media_type)]
                                    (Some data)) w' of
                     (Opened r, w'') \<Rightarrow> (Inr (), w'')
                   | (HTTPErr code, w'') \<Rightarrow> (print_error, w'')
                   | (URLErr, w'') \<Rightarrow> (Inl URLError, w'')))
      | _ \<Rightarrow> (Inl ValueError, w))"

section \<open>ddiff.py: pack and replay\<close>

text \<open>
  A Python set of JSON values is the list of its elements without duplicates. Lists and
  dicts cannot be hashed, and \<^verbatim>\<open>True\<close> and \<^verbatim>\<open>1\<close> (\<^verbatim>\<open>False\<close> and \<^verbatim>\<open>0\<close>) are the
  same element. The order in which a set is iterated is \<open>set_order\<close> of the environment.
\<close>

fun hashable :: "json \<Rightarrow> bool" where
  "hashable (JArr xs) = False"
| "hashable (JObj kvs) = False"
| "hashable _ = True"

fun py_key :: "json \<Rightarrow> json" where
  "py_key (JBool b) = JNum (if b then 1 else 0)"
| "py_key v = v"

definition py_set :: "json list \<Rightarrow> exn + json list" where
  "py_set xs = (if list_all hashable xs then Inr (remdups (map py_key xs)) else Inl TypeError)"

definition set_minus :: "json list \<Rightarrow> json list \<Rightarrow> json list" where
  "set_minus a b = filter (\<lambda>x. x \<notin> set b) a"

fun is_str :: "json \<Rightarrow> bool" where
  "is_str (JStr s) = True"
| "is_str _ = False"

fun str_of :: "json \<Rightarrow> string" where
  "str_of (JStr s) = s"
| "str_of _ = []"

text \<open>\<^verbatim>\<open>sep.join(xs)\<close> on JSON values: every element has to be a string.\<close>

definition py_join :: "string \<Rightarrow> json list \<Rightarrow> exn + string" where
  "py_join sep xs = (if list_all is_str xs then Inr (join sep (map str_of xs)) else Inl TypeError)"

text \<open>\<^verbatim>\<open>push_images\<close> and \<^verbatim>\<open>pull_images\<close> hand three commands per tag to the shell;
  \<^verbatim>\<open>run_command\<close> does not look at their exit status.\<close>

definition push_images :: "env \<Rightarrow> string list \<Rightarrow> (unit, world) io" where
  "push_images e tags =
     for_each tags (\<lambda>host_tag.
       let registry_tag = ddiff_url_base e @ ''/'' @ prepare_tag e host_tag
       in seq (run_command (''docker tag '' @ host_tag @ '' '' @ registry_tag)) (\<lambda>_.
          seq (run_command (''docker push '' @ registry_tag)) (\<lambda>_.
          run_command (''docker rmi '' @ registry_tag))))"

definition pull_images :: "env \<Rightarrow> string list \<Rightarrow> (unit, world) io" where
  "pull_images e tags =
     for_each tags (\<lambda>host_tag.
       let registry_tag = ddiff_url_base e @ ''/'' @ prepare_tag e host_tag
       in seq (run_command (''docker pull '' @ registry_tag)) (\<lambda>_.
          seq (run_command (''docker tag '' @ registry_tag @ '' '' @ host_tag)) (\<lambda>_.
          run_command (''docker rmi '' @ registry_tag))))"

text \<open>\<^verbatim>\<open>shutil.rmtree\<close> of the staging directory (with \<^verbatim>\<open>ignore_errors=True\<close> where
  it may be absent), \<^verbatim>\<open>os.makedirs\<close> of its \<^verbatim>\<open>blobs\<close> directory, and the archive made
  of it or unpacked into it.\<close>

definition rmtree :: "(unit, world) io" where
  "rmtree = modify (\<lambda>w. w\<lparr>staging := None\<rparr>)"

definition makedirs :: "(unit, world) io" where
  "makedirs = modify (\<lambda>w. w\<lparr>staging := Some Map.empty\<rparr>)"

definition tar_add :: "string \<Rightarrow> (unit, world) io" where
  "tar_add archive_name w =
     (case staging w of
        None \<Rightarrow> (Inl FileNotFoundError, w)
      | Some files \<Rightarrow> (Inr (), w\<lparr>archives := (archives w)(archive_name \<mapsto> files)\<rparr>))"

definition tar_extractall :: "string \<Rightarrow> (unit, world) io" where
  "tar_extractall image_tarball w =
     (case archives w image_tarball of
        None \<Rightarrow> (Inl FileNotFoundError, w)
      | Some files \<Rightarrow> (Inr (), w\<lparr>staging := Some files\<rparr>))"

text \<open>The file \<^verbatim>\<open>name\<close> of the staging directory is opened for writing, which creates it
  empty, and then the joined digests are written.\<close>

definition write_joined :: "string \<Rightarrow> exn + string \<Rightarrow> (unit, world) io" where
  "write_joined name joined =
     seq (write_file name '''') (\<lambda>_.
     seq (lift joined) (\<lambda>content.
     write_file name content))"

definition diff_image :: "env \<Rightarrow> string \<Rightarrow> string \<Rightarrow> (unit, world) io" where
  "diff_image e base_tag0 target_tag0 =
     seq (push_images e [base_tag0, target_tag0]) (\<lambda>_.
     let base_tag = prepare_tag e base_tag0;
         target_tag = prepare_tag e target_tag0;
         target_repo = hd (split CHR '':'' target_tag)
     in
     seq rmtree (\<lambda>_.
     seq makedirs (\<lambda>_.
     seq (request_manifest e base_tag) (\<lambda>(base_manifest, _).
     seq (request_manifest e target_tag) (\<lambda>(target_manifest, target_manifest_media_type).
     seq (lift (parse_blob_list (loads e) base_manifest)) (\<lambda>base_blobs.
     seq (lift (parse_blob_list (loads e) target_manifest)) (\<lambda>target_blobs.
     seq (lift (and_then (py_set target_blobs) (\<lambda>t.
                and_then (py_set base_blobs) (\<lambda>b. Inr (set_minus t b))))) (\<lambda>diff_blobs.
     seq (lift (py_join '','' (set_order e diff_blobs))) (\<lambda>_.
     seq (for_each (set_order e diff_blobs)
            (\<lambda>digest. download_blob e target_repo digest ''blobs'')) (\<lambda>_.
     seq (write_file ''manifest.json'' target_manifest) (\<lambda>_.
     seq (write_file ''MANIFEST_MEDIA_TYPE'' target_manifest_media_type) (\<lambda>_.
     seq (write_file ''BASE'' base_tag) (\<lambda>_.
     seq (write_file ''TARGET'' target_tag) (\<lambda>_.
     seq (write_joined ''MOUNT_BLOBS''
            (and_then (py_set target_blobs) (\<lambda>t.
               py_join ''|'' (set_order e (set_minus t diff_blobs))))) (\<lambda>_.
     seq (write_joined ''UPLOAD_BLOBS'' (py_join ''|'' (set_order e diff_blobs))) (\<lambda>_.
     let archive_name = replace '':'' ''-'' (replace ''/'' ''--'' target_tag) @ ''.tar.gz''
     in
     seq (tar_add archive_name) (\<lambda>_.
     rmtree)))))))))))))))))"

text \<open>The media type of the manifest is read from the package when the file is there
  and is not blank; otherwise it is the Docker v2 type.\<close>

definition read_media_type :: "(string, world) io" where
  "read_media_type w =
     (case read_file ''MANIFEST_MEDIA_TYPE'' w of
        (Inl ex, w') \<Rightarrow> (Inr DOCKER_MANIFEST_V2, w')
      | (Inr s, w') \<Rightarrow> (Inr (if strip s = [] then DOCKER_MANIFEST_V2 else strip s), w'))"

definition load_image :: "env \<Rightarrow> string option \<Rightarrow> string \<Rightarrow> (unit, world) io" where
  "load_image e base_tag_arg image_tarball =
     seq rmtree (\<lambda>_.
     seq (tar_extractall image_tarball) (\<lambda>_.
     seq (case base_tag_arg of
            None \<Rightarrow> seq (read_file ''BASE'') (\<lambda>s. ret (strip s))
          | Some t \<Rightarrow> ret t) (\<lambda>base_tag.
     let base_repo = hd (split CHR '':'' base_tag)
     in
     seq (push_images e [base_tag]) (\<lambda>_.
     seq (read_file ''TARGET'') (\<lambda>target_file.
     let target_tag = strip target_file;
         target_repo = hd (split CHR '':'' target_tag)
     in
     seq (read_file ''MOUNT_BLOBS'') (\<lambda>mount_file.
     let mount_blobs = split CHR ''|'' (strip mount_file)
     in
     seq (read_file ''UPLOAD_BLOBS'') (\<lambda>upload_file.
     let upload_blobs = split CHR ''|'' (strip upload_file)
     in
     seq read_media_type (\<lambda>manifest_media_type.
     seq (for_each mount_blobs (\<lambda>blob. cross_mount e target_repo base_repo blob)) (\<lambda>_.
     seq (for_each upload_blobs (\<lambda>blob. upload_blob e target_repo blob ''blobs'')) (\<lambda>_.
     seq (upload_manifest e target_tag ''manifest.json'' manifest_media_type) (\<lambda>_.
     seq rmtree (\<lambda>_.
     if contains ''localhost'' (ddiff_url e)
     then
       (let registry_tag = ddiff_url_base e @ ''/'' @ target_tag
        in seq (run_command (''docker pull '' @ registry_tag)) (\<lambda>_.
           seq (run_command (''docker tag '' @ registry_tag @ '' '' @ target_tag)) (\<lambda>_.
           run_command (''docker rmi '' @ registry_tag))))
     else ret ()))))))))))))"

text \<open>The request that \<^verbatim>\<open>_cross_mount\<close> sends for a digest.\<close>

definition mount_request :: "env \<Rightarrow> string \<Rightarrow> string \<Rightarrow> string \<Rightarrow> request" where
  "mount_request e target_repo base_repo digest =
     Request POST (ddiff_url e @ ''/v2/'' @ target_repo @ ''/blobs/uploads/?mount='' @ digest
                     @ ''&from='' @ base_repo) [] None"

section \<open>hub2registry.py: the store seeder\<close>

text \<open>
  What the seeder sends and what it gets. An event is a GET request (URL, query
  parameters, headers) or a \<^verbatim>\<open>time.sleep\<close>. A reply carries its status, its headers and
  its body in the chunks in which a streamed read delivers it; the flag tells whether the
  stream ends well (when it is \<open>False\<close>, iterating over the body raises after these
  chunks). The other results are the exceptions of \<^verbatim>\<open>requests\<close>:
  \<^verbatim>\<open>ConnectionError\<close>, \<^verbatim>\<open>Timeout\<close>, anything else.
\<close>

datatype event = Get string "(string \<times> string) list" "(string \<times> string) list" | Sleep real

datatype reply = Reply nat "(string \<times> string) list" "string list" bool

datatype get_result = Replied reply | ConnectionFailed | TimedOut | Failed

text \<open>
  The state of one worker: the files of the file system by path, the set
  \<^verbatim>\<open>DOWNLOADED\<close>, the headers of the thread's session (\<open>None\<close> before the session is
  made) and the events so far, oldest first. Threads are not modelled: the functions run
  one at a time.
\<close>

record seeder =
  fs :: "string \<rightharpoonup> string"
  DOWNLOADED :: "string set"
  tls_session :: "(string \<times> string) list option"
  events :: "event list"

text \<open>
  What the seeder reads from outside: the servers (their result for a request, given the
  events before it), \<^verbatim>\<open>hashlib.sha256(b).hexdigest()\<close>, \<^verbatim>\<open>json.loads\<close>, and \<^verbatim>\<open>str\<close> of a
  value that is not a string, as an f-string formats it.
\<close>

record seeder_env =
  hub :: "event list \<Rightarrow> event \<Rightarrow> get_result"
  sha256_hexdigest :: "string \<Rightarrow> string"
  hub_loads :: "string \<Rightarrow> json option"
  py_format :: "json \<Rightarrow> string"

definition SRC_REG :: string where
  "SRC_REG = ''https://registry-1.docker.io''"

definition ACCEPT :: string where
  "ACCEPT = join '',''
     [''application/vnd.docker.distribution.manifest.list.v2+json'',
      ''application/vnd.oci.image.index.v1+json'',
      ''application/vnd.docker.distribution.manifest.v2+json'',
      ''application/vnd.oci.image.manifest.v1+json'']"

definition py_str :: "seeder_env \<Rightarrow> json \<Rightarrow> string" where
  "py_str e v = (case v of JStr s \<Rightarrow> s | _ \<Rightarrow> py_format e v)"

text \<open>\<^verbatim>\<open>os.path.join\<close>: a component that starts with a slash replaces what is before it.\<close>

definition join2 :: "string \<Rightarrow> string \<Rightarrow> string" where
  "join2 path b =
     (if b \<noteq> [] \<and> hd b = CHR ''/'' then b
      else if path = [] \<or> last path = CHR ''/'' then path @ b
      else path @ ''/'' @ b)"

definition path_join :: "string \<Rightarrow> string list \<Rightarrow> string" where
  "path_join a ps = foldl join2 a ps"

text \<open>\<^verbatim>\<open>blob_file_path\<close>. The digest is a value of the manifest: only a string has
  \<^verbatim>\<open>split\<close>, and unpacking needs the colon.\<close>

definition blob_file_path :: "string \<Rightarrow> json \<Rightarrow> exn + string" where
  "blob_file_path root_dir digest =
     (case digest of
        JStr d \<Rightarrow>
          (case split1 CHR '':'' d of
             [algo, hexd] \<Rightarrow>
               Inr (path_join root_dir
                      [''docker'', ''registry'', ''v2'', ''blobs'', algo, take 2 hexd, hexd, ''data''])
           | _ \<Rightarrow> Inl ValueError)
      | _ \<Rightarrow> Inl AttributeError)"

text \<open>\<^verbatim>\<open>write_link\<close> (the directories are not modelled).\<close>

definition write_link :: "string \<Rightarrow> string \<Rightarrow> (unit, seeder) io" where
  "write_link path digest = modify (\<lambda>w. w\<lparr>fs := (fs w)(path \<mapsto> digest)\<rparr>)"

definition http_get ::
  "seeder_env \<Rightarrow> string \<Rightarrow> (string \<times> string) list \<Rightarrow> (string \<times> string) list
     \<Rightarrow> seeder \<Rightarrow> get_result \<times> seeder" where
  "http_get e url params headers w =
     (hub e (events w) (Get url params headers),
      w\<lparr>events := events w @ [Get url params headers]\<rparr>)"

text \<open>A GET followed by \<^verbatim>\<open>raise_for_status\<close>, as \<^verbatim>\<open>_get\<close>, \<^verbatim>\<open>_get_stream\<close> and
  \<^verbatim>\<open>dockerhub_token\<close> do it.\<close>

definition get_checked ::
  "seeder_env \<Rightarrow> string \<Rightarrow> (string \<times> string) list \<Rightarrow> (string \<times> string) list
     \<Rightarrow> (reply, seeder) io" where
  "get_checked e url params headers w =
     (case http_get e url params headers w of
        (Replied (Reply status hs chunks whole), w') \<Rightarrow>
          if 400 \<le> status \<and> status < 600 then (Inl (HTTPError (Some status)), w')
          else (Inr (Reply status hs chunks whole), w')
      | (ConnectionFailed, w') \<Rightarrow> (Inl ConnectionError, w')
      | (TimedOut, w') \<Rightarrow> (Inl Timeout, w')
      | (Failed, w') \<Rightarrow> (Inl OtherError, w'))"

definition dockerhub_token :: "seeder_env \<Rightarrow> string \<Rightarrow> (string, seeder) io" where
  "dockerhub_token e repository =
     seq (get_checked e ''https://auth.docker.io/token''
            [(''service'', ''registry.docker.io''),
             (''scope'', ''repository:'' @ repository @ '':pull'')] [])
       (\<lambda>r. case r of Reply status hs chunks whole \<Rightarrow>
          (case hub_loads e (concat chunks) of
             None \<Rightarrow> raise JSONDecodeError
           | Some doc \<Rightarrow> seq (lift (getitem doc ''token'')) (\<lambda>tok. ret (py_str e tok))))"

text \<open>\<^verbatim>\<open>get_session\<close>: the first call of a thread makes the session and tries to get a
  token; any exception of that is swallowed.\<close>

definition get_session :: "seeder_env \<Rightarrow> string \<Rightarrow> seeder \<Rightarrow> (string \<times> string) list \<times> seeder" where
  "get_session e repository w =
     (case tls_session w of
        Some s \<Rightarrow> (s, w)
      | None \<Rightarrow>
          (case dockerhub_token e repository w of
             (Inr tok, w') \<Rightarrow>
               ([(''Authorization'', ''Bearer '' @ tok)],
                w'\<lparr>tls_session := Some [(''Authorization'', ''Bearer '' @ tok)]\<rparr>)
           | (Inl ex, w') \<Rightarrow> ([], w'\<lparr>tls_session := Some []\<rparr>)))"

text \<open>\<^verbatim>\<open>_with_retry\<close>. The loop runs over \<^verbatim>\<open>range(retries)\<close>; \<open>last_ex\<close> is the last
  exception that was retried. With \<open>retries = 0\<close> the function returns \<^verbatim>\<open>None\<close>.\<close>

definition retryable :: "exn \<Rightarrow> bool" where
  "retryable ex =
     (case ex of
        HTTPError status \<Rightarrow>
          (case status of None \<Rightarrow> False | Some code \<Rightarrow> code \<in> set [429, 500, 502, 503, 504])
      | ConnectionError \<Rightarrow> True
      | Timeout \<Rightarrow> True
      | _ \<Rightarrow> False)"

definition sleep :: "real \<Rightarrow> seeder \<Rightarrow> seeder" where
  "sleep delay w = w\<lparr>events := events w @ [Sleep delay]\<rparr>"

fun retry_loop ::
  "('a, seeder) io \<Rightarrow> real \<Rightarrow> real \<Rightarrow> nat list \<Rightarrow> exn option \<Rightarrow> ('a option, seeder) io" where
  "retry_loop fn base_delay max_delay [] last_ex w =
     (case last_ex of Some ex \<Rightarrow> (Inl ex, w) | None \<Rightarrow> (Inr None, w))"
| "retry_loop fn base_delay max_delay (i # rest) last_ex w =
     (case fn w of
        (Inr v, w') \<Rightarrow> (Inr (Some v), w')
      | (Inl ex, w') \<Rightarrow>
          if retryable ex
          then retry_loop fn base_delay max_delay rest (Some ex)
                 (sleep (min max_delay (base_delay * 2 ^ i)) w')
          else (Inl ex, w'))"

definition with_retry ::
  "('a, seeder) io \<Rightarrow> nat \<Rightarrow> real \<Rightarrow> real \<Rightarrow> ('a option, seeder) io" where
  "with_retry fn retries base_delay max_delay =
     retry_loop fn base_delay max_delay [0..<retries] None"

text \<open>A call \<^verbatim>\<open>_with_retry(fn)\<close> with the default arguments whose result is used as a
  response: \<^verbatim>\<open>None\<close> has none of its attributes.\<close>

definition retried :: "('a, seeder) io \<Rightarrow> ('a, seeder) io" where
  "retried fn =
     seq (with_retry fn 5 1.0 8.0) (\<lambda>r. case r of None \<Rightarrow> raise AttributeError | Some v \<Rightarrow> ret v)"

text \<open>The loop of \<^verbatim>\<open>fetch_manifest\<close> over the entries of an index: the digest of the
  first entry for linux on amd64, if there is one.\<close>

fun pick_platform :: "json list \<Rightarrow> exn + json option" where
  "pick_platform [] = Inr None"
| "pick_platform (m # ms) =
     and_then (dict_get m ''platform'' (JObj [])) (\<lambda>p.
     and_then (dict_get p ''os'' JNull) (\<lambda>os.
       if os = JStr ''linux''
       then and_then (dict_get p ''architecture'' JNull) (\<lambda>architecture.
              if architecture = JStr ''amd64''
              then and_then (getitem m ''digest'') (\<lambda>d. Inr (Some d))
              else pick_platform ms)
       else pick_platform ms))"

definition reply_content_type :: "reply \<Rightarrow> string" where
  "reply_content_type r =
     (case r of Reply status hs chunks whole \<Rightarrow>
        (case map_of hs ''Content-Type'' of None \<Rightarrow> '''' | Some ct \<Rightarrow> ct))"

definition reply_content :: "reply \<Rightarrow> string" where
  "reply_content r = (case r of Reply status hs chunks whole \<Rightarrow> concat chunks)"

definition manifest_get :: "seeder_env \<Rightarrow> (string \<times> string) list \<Rightarrow> string \<Rightarrow> (reply, seeder) io" where
  "manifest_get e s url = get_checked e url [] (s @ [(''Accept'', ACCEPT)])"

definition fetch_manifest ::
  "seeder_env \<Rightarrow> string \<Rightarrow> string \<Rightarrow> (string \<times> json \<times> string, seeder) io" where
  "fetch_manifest e repo ref w0 =
     (case get_session e repo w0 of (s, w1) \<Rightarrow>
        seq (retried (manifest_get e s (SRC_REG @ ''/v2/'' @ repo @ ''/manifests/'' @ ref))) (\<lambda>r.
        seq (if contains ''manifest.list.v2+json'' (reply_content_type r)
                \<or> contains ''image.index.v1+json'' (reply_content_type r)
             then
               (case hub_loads e (reply_content r) of
                  None \<Rightarrow> raise JSONDecodeError
                | Some idx \<Rightarrow>
                    seq (lift (and_then (dict_get idx ''manifests'' (JArr [])) (\<lambda>ms.
                               and_then (py_iter ms) pick_platform))) (\<lambda>picked.
                    case picked of
                      None \<Rightarrow> raise RuntimeError
                    | Some d \<Rightarrow>
                        if \<not> truthy d then raise RuntimeError
                        else
                          seq (retried (manifest_get e s
                                 (SRC_REG @ ''/v2/'' @ repo @ ''/manifests/'' @ py_str e d))) (\<lambda>r2.
                          ret (reply_content r2, reply_content_type r2))))
             else ret (reply_content r, reply_content_type r)) (\<lambda>(body, ct).
        case hub_loads e body of
          None \<Rightarrow> raise JSONDecodeError
        | Some man \<Rightarrow> ret (body, man, ct))) w1)"

text \<open>\<^verbatim>\<open>stream_download_blob\<close>. The chunks are hashed and written to the temporary file
  as they come; a stream that breaks leaves the file with what was written.\<close>

definition stream_download_blob ::
  "seeder_env \<Rightarrow> string \<Rightarrow> string \<Rightarrow> string \<Rightarrow> (unit, seeder) io" where
  "stream_download_blob e repo digest dest_path w0 =
     (if fs w0 dest_path \<noteq> None then (Inr (), w0\<lparr>DOWNLOADED := insert digest (DOWNLOADED w0)\<rparr>)
      else if digest \<in> DOWNLOADED w0 then (Inr (), w0)
      else
        (case get_session e repo (w0\<lparr>DOWNLOADED := insert digest (DOWNLOADED w0)\<rparr>) of (s, w1) \<Rightarrow>
           seq (retried (get_checked e (SRC_REG @ ''/v2/'' @ repo @ ''/blobs/'' @ digest) [] s))
             (\<lambda>r w2. case r of Reply status hs chunks whole \<Rightarrow>
                (case split1 CHR '':'' digest of
                   [algo, hexd] \<Rightarrow>
                     (let tmp = dest_path @ ''.part'';
                          written = concat (filter (\<lambda>chunk. chunk \<noteq> []) chunks);
                          w3 = w2\<lparr>fs := (fs w2)(tmp \<mapsto> written)\<rparr>
                      in if \<not> whole then (Inl ConnectionError, w3)
                         else if sha256_hexdigest e written \<noteq> hexd
                         then (Inl RuntimeError,
                               w3\<lparr>DOWNLOADED := DOWNLOADED w3 - {digest},
                                   fs := (fs w3)(tmp := None)\<rparr>)
                         else (Inr (), w3\<lparr>fs := (fs w3)(tmp := None, dest_path := fs w3 tmp)\<rparr>))
                 | _ \<Rightarrow> (Inl ValueError, w2))) w1))"

text \<open>\<^verbatim>\<open>map_repository\<close>.\<close>

definition map_repository ::
  "string \<Rightarrow> string \<Rightarrow> string \<Rightarrow> string \<Rightarrow> string \<Rightarrow> string list \<Rightarrow> (unit, seeder) io" where
  "map_repository root_dir repo tag manifest_digest config layers =
     (let regv2 = path_join root_dir [''docker'', ''registry'', ''v2''];
          repo_root = path_join regv2 (''repositories'' # split CHR ''/'' repo)
      in
      seq (for_each (config # layers) (\<lambda>dg.
             case split1 CHR '':'' dg of
               [algo, hexd] \<Rightarrow>
                 write_link (path_join repo_root [''_layers'', ''sha256'', hexd, ''link'']) dg
             | _ \<Rightarrow> raise IndexError)) (\<lambda>_.
      case split1 CHR '':'' manifest_digest of
        [algo, mdhex] \<Rightarrow>
          seq (write_link (path_join repo_root
                 [''_manifests'', ''revisions'', ''sha256'', mdhex, ''link'']) manifest_digest) (\<lambda>_.
          seq (write_link (path_join repo_root
                 [''_manifests'', ''tags'', tag, ''index'', ''sha256'', mdhex, ''link''])
                 manifest_digest) (\<lambda>_.
          write_link (path_join repo_root [''_manifests'', ''tags'', tag, ''current'', ''link''])
            manifest_digest))
      | _ \<Rightarrow> raise IndexError))"

text \<open>The part of \<^verbatim>\<open>process_image\<close> that stores the manifest as a blob when its path
  does not exist: the bytes are written to a temporary file, read back and hashed, and
  the file is renamed when the hash is the one computed from the bytes.\<close>

definition store_manifest_blob :: "seeder_env \<Rightarrow> string \<Rightarrow> string \<Rightarrow> (unit, seeder) io" where
  "store_manifest_blob e out man_bytes =
     (let mdhex = sha256_hexdigest e man_bytes;
          mdgst = ''sha256:'' @ mdhex
      in
      seq (lift (blob_file_path out (JStr mdgst))) (\<lambda>m_dest w.
        if fs w m_dest \<noteq> None then (Inr (), w)
        else
          (let tmp = m_dest @ ''.part'';
               w1 = w\<lparr>fs := (fs w)(tmp \<mapsto> man_bytes)\<rparr>;
               got = sha256_hexdigest e (case fs w1 tmp of None \<Rightarrow> [] | Some b \<Rightarrow> b)
           in if got \<noteq> mdhex then (Inl RuntimeError, w1\<lparr>fs := (fs w1)(tmp := None)\<rparr>)
              else (Inr (), w1\<lparr>fs := (fs w1)(tmp := None, m_dest := fs w1 tmp),
                               DOWNLOADED := insert mdgst (DOWNLOADED w1)\<rparr>))))"

text \<open>The result of \<^verbatim>\<open>process_image\<close>.\<close>

record image_info =
  info_repo :: string
  info_tag :: string
  info_manifest_digest :: string
  info_config :: json
  info_layers :: "json list"
  info_manifest_media_type :: string

definition process_image ::
  "seeder_env \<Rightarrow> string \<Rightarrow> string \<Rightarrow> string \<Rightarrow> (image_info, seeder) io" where
  "process_image e out repo tag =
     seq (fetch_manifest e repo tag) (\<lambda>(man_bytes, man, mct).
     let mdgst = ''sha256:'' @ sha256_hexdigest e man_bytes
     in
     seq (lift (and_then (getitem man ''config'') (\<lambda>c. getitem c ''digest''))) (\<lambda>cfg.
     seq (lift (and_then (dict_get man ''layers'' (JArr [])) (\<lambda>ls.
                and_then (py_iter ls) (\<lambda>items.
                  foldr (\<lambda>l acc. and_then (getitem l ''digest'') (\<lambda>d.
                                  and_then acc (\<lambda>ds. Inr (d # ds)))) items (Inr []))))) (\<lambda>layers.
     seq (store_manifest_blob e out man_bytes) (\<lambda>_.
     seq (for_each (cfg # layers) (\<lambda>dg.
            seq (lift (blob_file_path out dg)) (\<lambda>dest w.
              if fs w dest \<noteq> None
              then (Inr (), w\<lparr>DOWNLOADED := insert (str_of dg) (DOWNLOADED w)\<rparr>)
              else stream_download_blob e repo (str_of dg) dest w))) (\<lambda>_.
     seq (map_repository out repo tag mdgst (str_of cfg) (map str_of layers)) (\<lambda>_.
     ret \<lparr>info_repo = repo, info_tag = tag, info_manifest_digest = mdgst, info_config = cfg,
          info_layers = layers, info_manifest_media_type = mct\<rparr>))))))"

section \<open>Example inputs\<close>

text \<open>A base image with the blobs \<open>c0\<close>, \<open>aa\<close>, \<open>bb\<close>, \<open>cc\<close> and a target image built on
  it with the blobs \<open>c1\<close>, \<open>aa\<close>, \<open>bb\<close>, \<open>dd\<close>.\<close>

definition example_base_manifest :: json where
  "example_base_manifest =
     JObj [(''schemaVersion'', JNum 2), (''mediaType'', JStr DOCKER_MANIFEST_V2),
           (''config'', JObj [(''size'', JNum 7), (''digest'', JStr ''sha256:c0'')]),
           (''layers'', JArr [JObj [(''digest'', JStr ''sha256:aa'')],
                              JObj [(''digest'', JStr ''sha256:bb'')],
                              JObj [(''digest'', JStr ''sha256:cc'')]])]"

definition example_target_manifest :: json where
  "example_target_manifest =
     JObj [(''schemaVersion'', JNum 2), (''mediaType'', JStr DOCKER_MANIFEST_V2),
           (''config'', JObj [(''size'', JNum 7), (''digest'', JStr ''sha256:c1'')]),
           (''layers'', JArr [JObj [(''digest'', JStr ''sha256:aa'')],
                              JObj [(''digest'', JStr ''sha256:bb'')],
                              JObj [(''digest'', JStr ''sha256:dd'')]])]"

text \<open>A manifest index with two platforms, a manifest that declares the empty media type,
  and a target manifest whose blob \<open>ee\<close> the registry does not have.\<close>

definition example_index_fields :: "(string \<times> json) list" where
  "example_index_fields =
     [(''schemaVersion'', JNum 2), (''mediaType'', JStr OCI_INDEX_V1),
      (''manifests'', JArr [
         JObj [(''digest'', JStr ''sha256:a64''),
               (''platform'', JObj [(''architecture'', JStr ''arm64''), (''os'', JStr ''linux'')])],
         JObj [(''digest'', JStr ''sha256:a32''),
               (''platform'', JObj [(''architecture'', JStr ''amd64''), (''os'', JStr ''linux'')])]])]"

definition example_untyped_manifest :: json where
  "example_untyped_manifest =
     JObj [(''schemaVersion'', JNum 2), (''mediaType'', JStr ''''),
           (''config'', JObj [(''digest'', JStr ''sha256:c0'')]),
           (''layers'', JArr [JObj [(''digest'', JStr ''sha256:aa'')]])]"

definition example_broken_manifest :: json where
  "example_broken_manifest =
     JObj [(''schemaVersion'', JNum 2), (''mediaType'', JStr DOCKER_MANIFEST_V2),
           (''config'', JObj [(''digest'', JStr ''sha256:c1'')]),
           (''layers'', JArr [JObj [(''digest'', JStr ''sha256:aa'')],
                              JObj [(''digest'', JStr ''sha256:ee'')]])]"

text \<open>The bodies the example registry serves are named, not spelled out: \<open>example_loads\<close>
  gives the document that \<^verbatim>\<open>json.loads\<close> returns for each of them.\<close>

definition example_loads :: "string \<Rightarrow> json option" where
  "example_loads =
     map_of [(''BASE'', example_base_manifest), (''TARGET'', example_target_manifest),
             (''INDEX'', JObj example_index_fields), (''UNTYPED'', example_untyped_manifest),
             (''BROKEN'', example_broken_manifest)]"

text \<open>A registry at \<^verbatim>\<open>http://localhost:5000\<close> that holds the base image as \<^verbatim>\<open>base:1\<close> and
  the target image as \<^verbatim>\<open>app:2\<close>. It mounts \<open>aa\<close> and \<open>bb\<close> from \<^verbatim>\<open>base\<close>, it finds
  \<open>aa\<close> but not \<open>bb\<close> in \<^verbatim>\<open>other\<close>, and it answers a mount without a digest by opening an
  upload. Every other request is answered with 404.\<close>

definition example_registry :: "request list \<Rightarrow> request \<Rightarrow> urlopen_result" where
  "example_registry history req =
     (case req of Request m url hs data \<Rightarrow>
        (case map_of
           [((GET, ''http://localhost:5000/v2/base/manifests/1''),
               Opened (Response 200 [(''Content-Type'', DOCKER_MANIFEST_V2)] ''BASE'' True)),
            ((GET, ''http://localhost:5000/v2/app/manifests/2''),
               Opened (Response 200
                 [(''Content-Type'', DOCKER_MANIFEST_V2 @ ''; charset=utf-8'')] ''TARGET'' True)),
            ((GET, ''http://localhost:5000/v2/app/manifests/multi''),
               Opened (Response 200 [(''Content-Type'', OCI_INDEX_V1)] ''INDEX'' True)),
            ((GET, ''http://localhost:5000/v2/app/manifests/broken''),
               Opened (Response 200 [(''Content-Type'', DOCKER_MANIFEST_V2)] ''BROKEN'' True)),
            ((GET, ''http://localhost:5000/v2/app/blobs/sha256:c1''),
               Opened (Response 200 [] ''config c1'' True)),
            ((GET, ''http://localhost:5000/v2/app/blobs/sha256:dd''),
               Opened (Response 200 [] ''layer dd'' True)),
            ((POST, ''http://localhost:5000/v2/app/blobs/uploads/?mount=sha256:aa&from=base''),
               Opened (Response 201 [] [] True)),
            ((POST, ''http://localhost:5000/v2/app/blobs/uploads/?mount=sha256:bb&from=base''),
               Opened (Response 201 [] [] True)),
            ((POST, ''http://localhost:5000/v2/app/blobs/uploads/?mount=sha256:aa&from=other''),
               Opened (Response 201 [] [] True)),
            ((POST, ''http://localhost:5000/v2/app/blobs/uploads/?mount=sha256:bb&from=other''),
               Opened (Response 202
                 [(''Location'', ''http://localhost:5000/v2/app/blobs/uploads/session-0'')] [] True)),
            ((POST, ''http://localhost:5000/v2/app/blobs/uploads/?mount=&from=base''),
               Opened (Response 202
                 [(''Location'', ''http://localhost:5000/v2/app/blobs/uploads/session-0'')] [] True)),
            ((POST, ''http://localhost:5000/v2/app/blobs/uploads/''),
               Opened (Response 202
                 [(''Location'', ''http://localhost:5000/v2/app/blobs/uploads/session-1'')] [] True)),
            ((PUT, ''http://localhost:5000/v2/app/blobs/uploads/session-1?digest=sha256%3Ac1''),
               Opened (Response 201 [] [] True)),
            ((PUT, ''http://localhost:5000/v2/app/blobs/uploads/session-1?digest=sha256%3Add''),
               Opened (Response 201 [] [] True)),
            ((PUT, ''http://localhost:5000/v2/app/manifests/2''),
               Opened (Response 201 [] [] True))] (m, url) of
           None \<Rightarrow> HTTPErr 404
         | Some r \<Rightarrow> r))"

definition example_env :: env where
  "example_env =
     \<lparr>ddiff_url = ''http://localhost:5000'', ddiff_disable_repository = False,
      loads = example_loads, registry = example_registry, set_order = rev\<rparr>"

text \<open>The package of the target image, as \<^verbatim>\<open>diff_image\<close> writes it; a package whose two
  digest files are empty; and a package with nothing to upload.\<close>

definition example_package :: "string \<rightharpoonup> string" where
  "example_package =
     map_of [(''manifest.json'', ''TARGET''), (''MANIFEST_MEDIA_TYPE'', DOCKER_MANIFEST_V2),
             (''BASE'', ''base:1''), (''TARGET'', ''app:2''),
             (''MOUNT_BLOBS'', ''sha256:aa|sha256:bb''), (''UPLOAD_BLOBS'', ''sha256:c1|sha256:dd''),
             (''blobs/sha256:c1.tar'', ''config c1''), (''blobs/sha256:dd.tar'', ''layer dd'')]"

definition example_empty_package :: "string \<rightharpoonup> string" where
  "example_empty_package =
     map_of [(''manifest.json'', ''BASE''), (''MANIFEST_MEDIA_TYPE'', DOCKER_MANIFEST_V2),
             (''BASE'', ''base:1''), (''TARGET'', ''app:2''),
             (''MOUNT_BLOBS'', ''''), (''UPLOAD_BLOBS'', '''')]"

definition example_mount_only_package :: "string \<rightharpoonup> string" where
  "example_mount_only_package =
     map_of [(''manifest.json'', ''TARGET''), (''MANIFEST_MEDIA_TYPE'', DOCKER_MANIFEST_V2),
             (''BASE'', ''base:1''), (''TARGET'', ''app:2''),
             (''MOUNT_BLOBS'', ''sha256:aa''), (''UPLOAD_BLOBS'', '''')]"

definition example_world :: world where
  "example_world =
     \<lparr>staging = None,
      archives = map_of [(''app-2.tar.gz'', example_package),
                         (''empty.tar.gz'', example_empty_package),
                         (''mount-only.tar.gz'', example_mount_only_package)],
      requests = [], commands = []\<rparr>"

section \<open>Frame conditions\<close>

text \<open>Predicates for the proofs: a computation leaves an observation \<open>g\<close> of the state
  as it was (whatever it returns, or when it raises), or its normal return establishes
  \<open>P\<close>.\<close>

definition preserves :: "(world \<Rightarrow> 'b) \<Rightarrow> ('a, world) io \<Rightarrow> bool" where
  "preserves g m = (\<forall>w r w'. m w = (r, w') \<longrightarrow> g w' = g w)"

definition preserves_on_failure :: "(world \<Rightarrow> 'b) \<Rightarrow> ('a, world) io \<Rightarrow> bool" where
  "preserves_on_failure g m = (\<forall>w ex w'. m w = (Inl ex, w') \<longrightarrow> g w' = g w)"

definition on_success :: "(world \<Rightarrow> bool) \<Rightarrow> ('a, world) io \<Rightarrow> bool" where
  "on_success P m = (\<forall>w r w'. m w = (Inr r, w') \<longrightarrow> P w')"

section \<open>Properties of ddiff.py\<close>

lemma and_then_simps [simp]:
  "and_then (Inl e) f = Inl e"
  "and_then (Inr v) f = f v"
  by (simp_all add: and_then_def)

subsection \<open>Sequencing\<close>

lemma seq_Inr: "m w = (Inr v, w') \<Longrightarrow> seq m f w = f v w'"
  by (simp add: seq_def)

lemma seq_Inl: "m w = (Inl ex, w') \<Longrightarrow> seq m f w = (Inl ex, w')"
  by (simp add: seq_def)

lemma seq_modify [simp]: "seq (modify g) f w = f () (g w)"
  by (simp add: seq_def modify_def)

lemma seq_ret [simp]: "seq (ret v) f w = f v w"
  by (simp add: seq_def ret_def)

lemma seq_raise [simp]: "seq (raise ex) f w = (Inl ex, w)"
  by (simp add: seq_def raise_def)

lemma seq_lift_Inr [simp]: "seq (lift (Inr v)) f w = f v w"
  by (simp add: seq_def lift_def)

lemma seq_lift_Inl [simp]: "seq (lift (Inl ex)) f w = (Inl ex, w)"
  by (simp add: seq_def lift_def)

lemma pair_fst_snd: "fst p = a \<Longrightarrow> p = (a, snd p)"
  by (cases p) simp

lemma rmtree_simps [simp]:
  "seq rmtree f w = f () (w\<lparr>staging := None\<rparr>)"
  "rmtree w = (Inr (), w\<lparr>staging := None\<rparr>)"
  by (simp_all add: rmtree_def modify_def)

lemma makedirs_simps [simp]:
  "seq makedirs f w = f () (w\<lparr>staging := Some Map.empty\<rparr>)"
  "makedirs w = (Inr (), w\<lparr>staging := Some Map.empty\<rparr>)"
  by (simp_all add: makedirs_def modify_def)

text \<open>The shell commands change nothing but the list of commands, and do not fail.\<close>

lemma for_each_commands:
  assumes "\<And>x w. \<exists>cs. body x w = (Inr (), w\<lparr>commands := cs\<rparr>)"
  shows "\<exists>cs. for_each xs body w = (Inr (), w\<lparr>commands := cs\<rparr>)"
proof (induction xs arbitrary: w)
  case Nil
  have "for_each [] body w = (Inr (), w\<lparr>commands := commands w\<rparr>)"
    by (simp add: ret_def)
  then show ?case by blast
next
  case (Cons x xs)
  obtain cs where 1: "body x w = (Inr (), w\<lparr>commands := cs\<rparr>)"
    using assms by blast
  obtain ds where 2: "for_each xs body (w\<lparr>commands := cs\<rparr>)
                        = (Inr (), w\<lparr>commands := cs\<rparr>\<lparr>commands := ds\<rparr>)"
    using Cons.IH by blast
  have "for_each (x # xs) body w = (Inr (), w\<lparr>commands := ds\<rparr>)"
    using 1 2 by (simp add: seq_Inr)
  then show ?case by blast
qed

lemma push_images_commands:
  "\<exists>cs. push_images e tags w = (Inr (), w\<lparr>commands := cs\<rparr>)"
  unfolding push_images_def
  by (rule for_each_commands)
     (simp add: Let_def run_command_def modify_def seq_def, rule exI, rule refl)

subsection \<open>The blob list of a manifest\<close>

lemma parse_layers_objects:
  assumes "list_all2 (\<lambda>layer l. \<exists>fields. layer = JObj fields \<and> map_of fields ''digest'' = Some l)
             layers ls"
  shows "parse_layers layers digests = Inr (digests @ ls)"
  using assms
proof (induction layers ls arbitrary: digests rule: list_all2_induct)
  case Nil
  then show ?case by simp
next
  case (Cons layer layers l ls)
  then obtain fields where "layer = JObj fields" "map_of fields ''digest'' = Some l" by blast
  then show ?case using Cons.IH [of "digests @ [l]"] by simp
qed

text \<open>
  C4. A manifest that passes the media type check, whose \<^verbatim>\<open>config\<close> is an object with
  the digest \<open>c\<close> and whose \<^verbatim>\<open>layers\<close> are objects with the digests \<open>ls\<close>, in this
  order, has the blob list \<open>c # ls\<close>: the config digest first, then the layer digests in
  manifest order.
\<close>

theorem parse_blob_list_config_then_layers:
  assumes "json_loads manifest_str = Some (JObj kvs)"
    and "validate_manifest_media_type (JObj kvs) = Inr media_type"
    and "map_of kvs ''config'' = Some (JObj config)"
    and "map_of config ''digest'' = Some c"
    and "map_of kvs ''layers'' = Some (JArr layers)"
    and "list_all2 (\<lambda>layer l. \<exists>fields. layer = JObj fields \<and> map_of fields ''digest'' = Some l)
           layers ls"
  shows "parse_blob_list json_loads manifest_str = Inr (c # ls)"
  using assms(1-5) parse_layers_objects [OF assms(6), of "[c]"]
  by (simp add: parse_blob_list_def)

theorem parse_blob_list_config_then_layers_witness:
  "parse_blob_list (\<lambda>s. Some example_target_manifest) ''{}''
     = Inr [JStr ''sha256:c1'', JStr ''sha256:aa'', JStr ''sha256:bb'', JStr ''sha256:dd'']"
proof -
  have "parse_blob_list (\<lambda>s. Some example_target_manifest) ''{}''
          = Inr (JStr ''sha256:c1'' # [JStr ''sha256:aa'', JStr ''sha256:bb'', JStr ''sha256:dd''])"
    by (rule parse_blob_list_config_then_layers
          [where kvs = "[(''schemaVersion'', JNum 2), (''mediaType'', JStr DOCKER_MANIFEST_V2),
                         (''config'', JObj [(''size'', JNum 7), (''digest'', JStr ''sha256:c1'')]),
                         (''layers'', JArr [JObj [(''digest'', JStr ''sha256:aa'')],
                                            JObj [(''digest'', JStr ''sha256:bb'')],
                                            JObj [(''digest'', JStr ''sha256:dd'')]])]"
             and media_type = "JStr DOCKER_MANIFEST_V2"
             and config = "[(''size'', JNum 7), (''digest'', JStr ''sha256:c1'')]"
             and layers = "[JObj [(''digest'', JStr ''sha256:aa'')],
                            JObj [(''digest'', JStr ''sha256:bb'')],
                            JObj [(''digest'', JStr ''sha256:dd'')]]"])
       (simp_all add: example_target_manifest_def validate_manifest_media_type_def
          DOCKER_MANIFEST_V2_def DOCKER_MANIFEST_LIST_V2_def OCI_INDEX_V1_def
          OCI_MANIFEST_V1_def SUPPORTED_MANIFEST_TYPES_def)
  then show ?thesis by simp
qed

subsection \<open>Validation of the media type\<close>

lemma unsupported_media_type_raises:
  assumes "json_loads manifest_str = Some (JObj kvs)"
    and "map_of kvs ''mediaType'' = Some media_type"
    and "media_type = JStr DOCKER_MANIFEST_LIST_V2 \<or> media_type = JStr OCI_INDEX_V1
         \<or> (truthy media_type \<and> media_type \<notin> set (map JStr SUPPORTED_MANIFEST_TYPES))"
  shows "parse_blob_list json_loads manifest_str = Inl RuntimeError"
  using assms
  by (auto simp add: parse_blob_list_def validate_manifest_media_type_def print_error_def)

text \<open>What is left of \<^verbatim>\<open>diff_image\<close> once both manifests have been fetched.\<close>

lemma diff_image_after_manifests:
  assumes "request_manifest e (prepare_tag e base_tag)
             (snd (makedirs (snd (rmtree (snd (push_images e [base_tag, target_tag] w))))))
           = (Inr (base_manifest, base_type), w2)"
    and "request_manifest e (prepare_tag e target_tag) w2
           = (Inr (target_manifest, target_type), w3)"
  shows "diff_image e base_tag target_tag w =
     seq (lift (parse_blob_list (loads e) base_manifest)) (\<lambda>base_blobs.
     seq (lift (parse_blob_list (loads e) target_manifest)) (\<lambda>target_blobs.
     seq (lift (and_then (py_set target_blobs) (\<lambda>t.
                and_then (py_set base_blobs) (\<lambda>b. Inr (set_minus t b))))) (\<lambda>diff_blobs.
     seq (lift (py_join '','' (set_order e diff_blobs))) (\<lambda>_.
     seq (for_each (set_order e diff_blobs)
            (\<lambda>digest. download_blob e (hd (split CHR '':'' (prepare_tag e target_tag)))
                         digest ''blobs'')) (\<lambda>_.
     seq (write_file ''manifest.json'' target_manifest) (\<lambda>_.
     seq (write_file ''MANIFEST_MEDIA_TYPE'' target_type) (\<lambda>_.
     seq (write_file ''BASE'' (prepare_tag e base_tag)) (\<lambda>_.
     seq (write_file ''TARGET'' (prepare_tag e target_tag)) (\<lambda>_.
     seq (write_joined ''MOUNT_BLOBS''
            (and_then (py_set target_blobs) (\<lambda>t.
               py_join ''|'' (set_order e (set_minus t diff_blobs))))) (\<lambda>_.
     seq (write_joined ''UPLOAD_BLOBS'' (py_join ''|'' (set_order e diff_blobs))) (\<lambda>_.
     seq (tar_add (replace '':'' ''-'' (replace ''/'' ''--'' (prepare_tag e target_tag))
                    @ ''.tar.gz'')) (\<lambda>_.
     rmtree)))))))))))) w3"
proof -
  obtain cs where p: "push_images e [base_tag, target_tag] w = (Inr (), w\<lparr>commands := cs\<rparr>)"
    using push_images_commands by blast
  show ?thesis
    using assms unfolding diff_image_def
    by (simp add: p seq_Inr Let_def)
qed

text \<open>
  C3, as the code has it. A manifest whose \<^verbatim>\<open>mediaType\<close> is the Docker manifest list or
  the OCI index type, or is any other non-empty (truthy) value outside the list of
  supported types, makes \<^verbatim>\<open>_parse_blob_list\<close> raise, so no blob list is produced.
  \<^verbatim>\<open>diff_image\<close> validates both manifests: when the base or the target manifest it has
  fetched is such a manifest, it raises in the state \<open>w3\<close> reached by the two manifest
  requests, before any blob is requested or any file is written.
\<close>

theorem unsupported_manifest_rejected:
  assumes "request_manifest e (prepare_tag e base_tag)
             (snd (makedirs (snd (rmtree (snd (push_images e [base_tag, target_tag] w))))))
           = (Inr (base_manifest, base_type), w2)"
    and "request_manifest e (prepare_tag e target_tag) w2
           = (Inr (target_manifest, target_type), w3)"
    and "loads e manifest_str = Some (JObj kvs)"
    and "map_of kvs ''mediaType'' = Some media_type"
    and "media_type = JStr DOCKER_MANIFEST_LIST_V2 \<or> media_type = JStr OCI_INDEX_V1
         \<or> (truthy media_type \<and> media_type \<notin> set (map JStr SUPPORTED_MANIFEST_TYPES))"
  shows "parse_blob_list (loads e) manifest_str = Inl RuntimeError
       \<and> (manifest_str = base_manifest \<longrightarrow>
            diff_image e base_tag target_tag w = (Inl RuntimeError, w3))
       \<and> (manifest_str = target_manifest \<longrightarrow>
            (\<exists>ex. diff_image e base_tag target_tag w = (Inl ex, w3)))"
proof -
  have r: "parse_blob_list (loads e) manifest_str = Inl RuntimeError"
    using assms(3-5) by (rule unsupported_media_type_raises)
  note d = diff_image_after_manifests [OF assms(1,2)]
  have "diff_image e base_tag target_tag w = (Inl RuntimeError, w3)"
    if "manifest_str = base_manifest"
    using r that by (simp add: d)
  moreover have "\<exists>ex. diff_image e base_tag target_tag w = (Inl ex, w3)"
    if "manifest_str = target_manifest"
  proof (cases "parse_blob_list (loads e) base_manifest")
    case (Inl ex)
    then show ?thesis by (simp add: d)
  next
    case (Inr base_blobs)
    then show ?thesis using r that by (simp add: d)
  qed
  ultimately show ?thesis using r by blast
qed

theorem unsupported_manifest_rejected_witness:
  "parse_blob_list (loads example_env) ''INDEX'' = Inl RuntimeError
   \<and> (\<exists>ex. fst (diff_image example_env ''base:1'' ''app:multi'' example_world) = Inl ex)"
proof -
  let ?w1 = "snd (makedirs (snd (rmtree (snd
               (push_images example_env [''base:1'', ''app:multi''] example_world)))))"
  let ?w2 = "snd (request_manifest example_env (prepare_tag example_env ''base:1'') ?w1)"
  let ?w3 = "snd (request_manifest example_env (prepare_tag example_env ''app:multi'') ?w2)"
  have 1: "request_manifest example_env (prepare_tag example_env ''base:1'') ?w1
             = (Inr (''BASE'', DOCKER_MANIFEST_V2), ?w2)"
    by (rule pair_fst_snd) code_simp
  have 2: "request_manifest example_env (prepare_tag example_env ''app:multi'') ?w2
             = (Inr (''INDEX'', OCI_INDEX_V1), ?w3)"
    by (rule pair_fst_snd) code_simp
  have 3: "loads example_env ''INDEX'' = Some (JObj example_index_fields)"
    by code_simp
  have 4: "map_of example_index_fields ''mediaType'' = Some (JStr OCI_INDEX_V1)"
    by (simp add: example_index_fields_def)
  show ?thesis
    using unsupported_manifest_rejected [OF 1 2 3 4] by auto
qed

text \<open>
  The claim C3 as it is written fails for the empty media type: it is outside the list of
  supported types, and the manifest passes the validation and has a blob list.
\<close>

theorem empty_media_type_accepted:
  "dict_get example_untyped_manifest ''mediaType'' (JStr '''') = Inr (JStr '''')
   \<and> '''' \<notin> set SUPPORTED_MANIFEST_TYPES
   \<and> validate_manifest_media_type example_untyped_manifest = Inr (JStr '''')
   \<and> parse_blob_list example_loads ''UNTYPED'' = Inr [JStr ''sha256:c0'', JStr ''sha256:aa'']"
  by code_simp

subsection \<open>The partition of the target's blobs\<close>

lemma seq_success:
  assumes "seq m f w = (Inr r, w')"
  obtains v w1 where "m w = (Inr v, w1)" "f v w1 = (Inr r, w')"
  using assms by (auto simp add: seq_def split: prod.splits sum.splits)

lemma lift_success: "lift r w = (Inr v, w') \<Longrightarrow> r = Inr v \<and> w' = w"
  by (simp add: lift_def)

lemma write_file_success:
  assumes "write_file path content w = (Inr u, w')"
  obtains files where "staging w = Some files" "w' = w\<lparr>staging := Some (files(path \<mapsto> content))\<rparr>"
  using assms by (auto simp add: write_file_def split: option.splits)

lemma pack_tail:
  assumes "seq (write_joined ''MOUNT_BLOBS'' jm) (\<lambda>_.
           seq (write_joined ''UPLOAD_BLOBS'' ju) (\<lambda>_.
           seq (tar_add name) (\<lambda>_. rmtree))) w = (Inr u, w')"
  shows "\<exists>m up package. jm = Inr m \<and> ju = Inr up \<and> archives w' name = Some package
           \<and> package ''MOUNT_BLOBS'' = Some m \<and> package ''UPLOAD_BLOBS'' = Some up"
proof -
  from assms obtain u1 w1 where 1: "write_joined ''MOUNT_BLOBS'' jm w = (Inr u1, w1)"
    and r1: "seq (write_joined ''UPLOAD_BLOBS'' ju) (\<lambda>_. seq (tar_add name) (\<lambda>_. rmtree)) w1 = (Inr u, w')"
    by (rule seq_success)
  from r1 obtain u2 w2 where 2: "write_joined ''UPLOAD_BLOBS'' ju w1 = (Inr u2, w2)"
    and r2: "seq (tar_add name) (\<lambda>_. rmtree) w2 = (Inr u, w')"
    by (rule seq_success)
  from 1 obtain m files where m: "jm = Inr m" "staging w = Some files"
      "w1 = w\<lparr>staging := Some (files(''MOUNT_BLOBS'' \<mapsto> m))\<rparr>"
    by (cases jm; cases "staging w") (auto simp add: write_joined_def write_file_def seq_def lift_def)
  from 2 m obtain up where up: "ju = Inr up"
      "w2 = w\<lparr>staging := Some (files(''MOUNT_BLOBS'' \<mapsto> m, ''UPLOAD_BLOBS'' \<mapsto> up))\<rparr>"
    by (cases ju) (auto simp add: write_joined_def write_file_def seq_def lift_def)
  from r2 up have "archives w' name = Some (files(''MOUNT_BLOBS'' \<mapsto> m, ''UPLOAD_BLOBS'' \<mapsto> up))"
    by (auto simp add: tar_add_def seq_def)
  with m up show ?thesis by simp
qed

lemma py_set_success:
  assumes "py_set xs = Inr t"
  shows "set t = py_key ` set xs"
  using assms by (auto simp add: py_set_def split: if_splits)

lemma py_join_success:
  assumes "py_join sep xs = Inr s"
  shows "list_all is_str xs \<and> s = join sep (map str_of xs)"
  using assms by (auto simp add: py_join_def split: if_splits)

lemma is_str_py_key: "is_str (py_key x) \<Longrightarrow> py_key x = x"
  by (cases x) auto

lemma JStr_str_of: "is_str x \<Longrightarrow> JStr (str_of x) = x"
  by (cases x) auto

lemma JStr_image_str_of: "list_all is_str xs \<Longrightarrow> JStr ` set (map str_of xs) = set xs"
  by (induction xs) (auto simp add: JStr_str_of)

lemma str_in_py_key_image: "is_str x \<Longrightarrow> x \<in> py_key ` S \<longleftrightarrow> x \<in> S"
proof
  assume s: "is_str x" and "x \<in> py_key ` S"
  then obtain y where y: "y \<in> S" "x = py_key y" by blast
  with s have "py_key y = y" using is_str_py_key by metis
  with y show "x \<in> S" by simp
next
  assume s: "is_str x" and "x \<in> S"
  then show "x \<in> py_key ` S" by (cases x) force+
qed

lemma partition_sets:
  assumes t: "py_set target_blobs = Inr t" and b: "py_set base_blobs = Inr b"
    and order: "\<And>xs. set (order xs) = set xs"
    and m: "list_all is_str (order (set_minus t (set_minus t b)))"
    and up: "list_all is_str (order (set_minus t b))"
  shows "JStr ` set (map str_of (order (set_minus t (set_minus t b)))) = set target_blobs \<inter> set base_blobs"
    and "JStr ` set (map str_of (order (set_minus t b))) = set target_blobs - set base_blobs"
proof -
  let ?ms = "order (set_minus t (set_minus t b))"
  let ?us = "order (set_minus t b)"
  have set_t: "set t = py_key ` set target_blobs" and set_b: "set b = py_key ` set base_blobs"
    using t b by (simp_all add: py_set_success)
  have set_us: "set ?us = set t - set b"
    by (auto simp add: order set_minus_def)
  have set_ms: "set ?ms = set t \<inter> set b"
    by (auto simp add: order set_minus_def)
  have strs: "is_str x" if "x \<in> set t" for x
  proof (cases "x \<in> set b")
    case True
    then have "x \<in> set ?ms" using that set_ms by simp
    then show ?thesis using m by (simp add: list_all_iff)
  next
    case False
    then have "x \<in> set ?us" using that set_us by simp
    then show ?thesis using up by (simp add: list_all_iff)
  qed
  have keep: "py_key x = x" if "x \<in> set target_blobs" for x
  proof -
    have "py_key x \<in> set t" using that set_t by simp
    then show ?thesis using strs is_str_py_key by simp
  qed
  have tt: "set t = set target_blobs"
    unfolding set_t using keep by force
  have mem: "x \<in> set b \<longleftrightarrow> x \<in> set base_blobs" if "x \<in> set target_blobs" for x
  proof -
    have "is_str x" using that tt strs by simp
    then show ?thesis unfolding set_b by (rule str_in_py_key_image)
  qed
  have inter: "set t \<inter> set b = set target_blobs \<inter> set base_blobs"
    unfolding tt using mem by blast
  have minus: "set t - set b = set target_blobs - set base_blobs"
    unfolding tt using mem by blast
  show "JStr ` set (map str_of ?ms) = set target_blobs \<inter> set base_blobs"
    using JStr_image_str_of [OF m] set_ms inter by simp
  show "JStr ` set (map str_of ?us) = set target_blobs - set base_blobs"
    using JStr_image_str_of [OF up] set_us minus by simp
qed

text \<open>
  C1. When \<^verbatim>\<open>diff_image\<close> has fetched and parsed the two manifests and returns, the
  archive it has written holds, in \<^verbatim>\<open>MOUNT_BLOBS\<close> and \<^verbatim>\<open>UPLOAD_BLOBS\<close>, the
  \<^verbatim>\<open>|\<close>-joined digests of two lists \<open>mountable\<close> and \<open>exclusive\<close>: the first is the
  intersection of the target's and the base's blob sets, the second the target's blobs
  that the base does not have, the two are disjoint and together they are the target's
  blob set. The order in which Python iterates over a set is any order (\<open>set_order\<close>).
\<close>

theorem diff_image_partition:
  assumes fetched_base: "request_manifest e (prepare_tag e base_tag)
             (snd (makedirs (snd (rmtree (snd (push_images e [base_tag, target_tag] w))))))
           = (Inr (base_manifest, base_type), w2)"
    and fetched_target: "request_manifest e (prepare_tag e target_tag) w2
           = (Inr (target_manifest, target_type), w3)"
    and parsed_base: "parse_blob_list (loads e) base_manifest = Inr base_blobs"
    and parsed_target: "parse_blob_list (loads e) target_manifest = Inr target_blobs"
    and order: "\<And>xs. set (set_order e xs) = set xs"
    and finished: "diff_image e base_tag target_tag w = (Inr (), w')"
  shows "\<exists>mountable exclusive package.
           archives w' (replace '':'' ''-'' (replace ''/'' ''--'' (prepare_tag e target_tag))
                         @ ''.tar.gz'') = Some package
         \<and> package ''MOUNT_BLOBS'' = Some (join ''|'' mountable)
         \<and> package ''UPLOAD_BLOBS'' = Some (join ''|'' exclusive)
         \<and> JStr ` set mountable = set target_blobs \<inter> set base_blobs
         \<and> JStr ` set exclusive = set target_blobs - set base_blobs
         \<and> set mountable \<inter> set exclusive = {}
         \<and> JStr ` (set mountable \<union> set exclusive) = set target_blobs"
proof -
  let ?name = "replace '':'' ''-'' (replace ''/'' ''--'' (prepare_tag e target_tag)) @ ''.tar.gz''"
  let ?repo = "hd (split CHR '':'' (prepare_tag e target_tag))"
  note d = diff_image_after_manifests [OF fetched_base fetched_target]
  from finished have "seq (lift (and_then (py_set target_blobs) (\<lambda>t.
                and_then (py_set base_blobs) (\<lambda>b. Inr (set_minus t b))))) (\<lambda>diff_blobs.
     seq (lift (py_join '','' (set_order e diff_blobs))) (\<lambda>_.
     seq (for_each (set_order e diff_blobs)
            (\<lambda>digest. download_blob e ?repo digest ''blobs'')) (\<lambda>_.
     seq (write_file ''manifest.json'' target_manifest) (\<lambda>_.
     seq (write_file ''MANIFEST_MEDIA_TYPE'' target_type) (\<lambda>_.
     seq (write_file ''BASE'' (prepare_tag e base_tag)) (\<lambda>_.
     seq (write_file ''TARGET'' (prepare_tag e target_tag)) (\<lambda>_.
     seq (write_joined ''MOUNT_BLOBS''
            (and_then (py_set target_blobs) (\<lambda>t.
               py_join ''|'' (set_order e (set_minus t diff_blobs))))) (\<lambda>_.
     seq (write_joined ''UPLOAD_BLOBS'' (py_join ''|'' (set_order e diff_blobs))) (\<lambda>_.
     seq (tar_add ?name) (\<lambda>_.
     rmtree)))))))))) w3 = (Inr (), w')"
    by (simp add: d parsed_base parsed_target)
  then obtain diff_blobs w4 where
    diff: "lift (and_then (py_set target_blobs) (\<lambda>t.
                and_then (py_set base_blobs) (\<lambda>b. Inr (set_minus t b)))) w3 = (Inr diff_blobs, w4)"
    and c1: "seq (lift (py_join '','' (set_order e diff_blobs))) (\<lambda>_.
     seq (for_each (set_order e diff_blobs)
            (\<lambda>digest. download_blob e ?repo digest ''blobs'')) (\<lambda>_.
     seq (write_file ''manifest.json'' target_manifest) (\<lambda>_.
     seq (write_file ''MANIFEST_MEDIA_TYPE'' target_type) (\<lambda>_.
     seq (write_file ''BASE'' (prepare_tag e base_tag)) (\<lambda>_.
     seq (write_file ''TARGET'' (prepare_tag e target_tag)) (\<lambda>_.
     seq (write_joined ''MOUNT_BLOBS''
            (and_then (py_set target_blobs) (\<lambda>t.
               py_join ''|'' (set_order e (set_minus t diff_blobs))))) (\<lambda>_.
     seq (write_joined ''UPLOAD_BLOBS'' (py_join ''|'' (set_order e diff_blobs))) (\<lambda>_.
     seq (tar_add ?name) (\<lambda>_.
     rmtree))))))))) w4 = (Inr (), w')"
    by (rule seq_success)
  from c1 obtain w5 where c2: "seq (for_each (set_order e diff_blobs)
            (\<lambda>digest. download_blob e ?repo digest ''blobs'')) (\<lambda>_.
     seq (write_file ''manifest.json'' target_manifest) (\<lambda>_.
     seq (write_file ''MANIFEST_MEDIA_TYPE'' target_type) (\<lambda>_.
     seq (write_file ''BASE'' (prepare_tag e base_tag)) (\<lambda>_.
     seq (write_file ''TARGET'' (prepare_tag e target_tag)) (\<lambda>_.
     seq (write_joined ''MOUNT_BLOBS''
            (and_then (py_set target_blobs) (\<lambda>t.
               py_join ''|'' (set_order e (set_minus t diff_blobs))))) (\<lambda>_.
     seq (write_joined ''UPLOAD_BLOBS'' (py_join ''|'' (set_order e diff_blobs))) (\<lambda>_.
     seq (tar_add ?name) (\<lambda>_.
     rmtree)))))))) w5 = (Inr (), w')"
    by (rule seq_success)
  from c2 obtain w6 where c3: "
     seq (write_file ''manifest.json'' target_manifest) (\<lambda>_.
     seq (write_file ''MANIFEST_MEDIA_TYPE'' target_type) (\<lambda>_.
     seq (write_file ''BASE'' (prepare_tag e base_tag)) (\<lambda>_.
     seq (write_file ''TARGET'' (prepare_tag e target_tag)) (\<lambda>_.
     seq (write_joined ''MOUNT_BLOBS''
            (and_then (py_set target_blobs) (\<lambda>t.
               py_join ''|'' (set_order e (set_minus t diff_blobs))))) (\<lambda>_.
     seq (write_joined ''UPLOAD_BLOBS'' (py_join ''|'' (set_order e diff_blobs))) (\<lambda>_.
     seq (tar_add ?name) (\<lambda>_.
     rmtree))))))) w6 = (Inr (), w')"
    by (rule seq_success)
  from c3 obtain w7 where c4: "
     seq (write_file ''MANIFEST_MEDIA_TYPE'' target_type) (\<lambda>_.
     seq (write_file ''BASE'' (prepare_tag e base_tag)) (\<lambda>_.
     seq (write_file ''TARGET'' (prepare_tag e target_tag)) (\<lambda>_.
     seq (write_joined ''MOUNT_BLOBS''
            (and_then (py_set target_blobs) (\<lambda>t.
               py_join ''|'' (set_order e (set_minus t diff_blobs))))) (\<lambda>_.
     seq (write_joined ''UPLOAD_BLOBS'' (py_join ''|'' (set_order e diff_blobs))) (\<lambda>_.
     seq (tar_add ?name) (\<lambda>_.
     rmtree)))))) w7 = (Inr (), w')"
    by (rule seq_success)
  from c4 obtain w8 where c5: "
     seq (write_file ''BASE'' (prepare_tag e base_tag)) (\<lambda>_.
     seq (write_file ''TARGET'' (prepare_tag e target_tag)) (\<lambda>_.
     seq (write_joined ''MOUNT_BLOBS''
            (and_then (py_set target_blobs) (\<lambda>t.
               py_join ''|'' (set_order e (set_minus t diff_blobs))))) (\<lambda>_.
     seq (write_joined ''UPLOAD_BLOBS'' (py_join ''|'' (set_order e diff_blobs))) (\<lambda>_.
     seq (tar_add ?name) (\<lambda>_.
     rmtree))))) w8 = (Inr (), w')"
    by (rule seq_success)
  from c5 obtain w9 where c6: "
     seq (write_file ''TARGET'' (prepare_tag e target_tag)) (\<lambda>_.
     seq (write_joined ''MOUNT_BLOBS''
            (and_then (py_set target_blobs) (\<lambda>t.
               py_join ''|'' (set_order e (set_minus t diff_blobs))))) (\<lambda>_.
     seq (write_joined ''UPLOAD_BLOBS'' (py_join ''|'' (set_order e diff_blobs))) (\<lambda>_.
     seq (tar_add ?name) (\<lambda>_.
     rmtree)))) w9 = (Inr (), w')"
    by (rule seq_success)
  from c6 obtain w10 where c7: "
     seq (write_joined ''MOUNT_BLOBS''
            (and_then (py_set target_blobs) (\<lambda>t.
               py_join ''|'' (set_order e (set_minus t diff_blobs))))) (\<lambda>_.
     seq (write_joined ''UPLOAD_BLOBS'' (py_join ''|'' (set_order e diff_blobs))) (\<lambda>_.
     seq (tar_add ?name) (\<lambda>_.
     rmtree))) w10 = (Inr (), w')"
    by (rule seq_success)
  from pack_tail [OF c7] obtain m up package where
    jm: "and_then (py_set target_blobs) (\<lambda>t. py_join ''|'' (set_order e (set_minus t diff_blobs))) = Inr m"
    and ju: "py_join ''|'' (set_order e diff_blobs) = Inr up"
    and package: "archives w' ?name = Some package" "package ''MOUNT_BLOBS'' = Some m"
      "package ''UPLOAD_BLOBS'' = Some up"
    by blast
  from diff obtain t b where t: "py_set target_blobs = Inr t" and b: "py_set base_blobs = Inr b"
    and diff_def: "diff_blobs = set_minus t b"
    by (cases "py_set target_blobs"; cases "py_set base_blobs") (auto simp add: lift_def)
  let ?ms = "set_order e (set_minus t (set_minus t b))"
  let ?us = "set_order e (set_minus t b)"
  from jm t diff_def have m: "list_all is_str ?ms" "m = join ''|'' (map str_of ?ms)"
    using py_join_success by auto
  from ju diff_def have up: "list_all is_str ?us" "up = join ''|'' (map str_of ?us)"
    using py_join_success by auto
  note sets = partition_sets [where order = "set_order e", OF t b order m(1) up(1)]
  have 3: "set (map str_of ?ms) \<inter> set (map str_of ?us) = {}"
  proof -
    have "inj JStr" by (simp add: inj_def)
    then have "JStr ` (set (map str_of ?ms) \<inter> set (map str_of ?us))
                 = JStr ` set (map str_of ?ms) \<inter> JStr ` set (map str_of ?us)"
      by (rule image_Int)
    also have "\<dots> = {}" unfolding sets by blast
    finally have "JStr ` (set (map str_of ?ms) \<inter> set (map str_of ?us)) = {}" .
    then show ?thesis by simp
  qed
  have 4: "JStr ` (set (map str_of ?ms) \<union> set (map str_of ?us)) = set target_blobs"
    unfolding image_Un sets by blast
  from package(1) package(2) [unfolded m(2)] package(3) [unfolded up(2)] sets 3 4
  show ?thesis by (intro exI conjI)
qed

theorem diff_image_partition_witness:
  "fst (diff_image example_env ''base:1'' ''app:2'' example_world) = Inr ()
   \<and> (\<exists>mountable exclusive package.
         archives (snd (diff_image example_env ''base:1'' ''app:2'' example_world)) ''app-2.tar.gz''
           = Some package
         \<and> package ''MOUNT_BLOBS'' = Some (join ''|'' mountable)
         \<and> package ''UPLOAD_BLOBS'' = Some (join ''|'' exclusive)
         \<and> JStr ` set mountable = {JStr ''sha256:aa'', JStr ''sha256:bb''}
         \<and> JStr ` set exclusive = {JStr ''sha256:c1'', JStr ''sha256:dd''}
         \<and> set mountable \<inter> set exclusive = {}
         \<and> JStr ` (set mountable \<union> set exclusive)
             = {JStr ''sha256:c1'', JStr ''sha256:aa'', JStr ''sha256:bb'', JStr ''sha256:dd''})"
proof -
  let ?w1 = "snd (makedirs (snd (rmtree (snd
               (push_images example_env [''base:1'', ''app:2''] example_world)))))"
  let ?w2 = "snd (request_manifest example_env (prepare_tag example_env ''base:1'') ?w1)"
  let ?w3 = "snd (request_manifest example_env (prepare_tag example_env ''app:2'') ?w2)"
  let ?w' = "snd (diff_image example_env ''base:1'' ''app:2'' example_world)"
  have 1: "request_manifest example_env (prepare_tag example_env ''base:1'') ?w1
             = (Inr (''BASE'', DOCKER_MANIFEST_V2), ?w2)"
    by (rule pair_fst_snd) code_simp
  have 2: "request_manifest example_env (prepare_tag example_env ''app:2'') ?w2
             = (Inr (''TARGET'', DOCKER_MANIFEST_V2), ?w3)"
    by (rule pair_fst_snd) code_simp
  have 3: "parse_blob_list (loads example_env) ''BASE''
             = Inr [JStr ''sha256:c0'', JStr ''sha256:aa'', JStr ''sha256:bb'', JStr ''sha256:cc'']"
    by code_simp
  have 4: "parse_blob_list (loads example_env) ''TARGET''
             = Inr [JStr ''sha256:c1'', JStr ''sha256:aa'', JStr ''sha256:bb'', JStr ''sha256:dd'']"
    by code_simp
  have 5: "set (set_order example_env xs) = set xs" for xs
    by (simp add: example_env_def)
  have f: "fst (diff_image example_env ''base:1'' ''app:2'' example_world) = Inr ()"
    by code_simp
  then have 6: "diff_image example_env ''base:1'' ''app:2'' example_world = (Inr (), ?w')"
    by (rule pair_fst_snd)
  have n: "replace '':'' ''-'' (replace ''/'' ''--'' (prepare_tag example_env ''app:2'')) @ ''.tar.gz''
             = ''app-2.tar.gz''"
    by code_simp
  have s: "set [JStr ''sha256:c1'', JStr ''sha256:aa'', JStr ''sha256:bb'', JStr ''sha256:dd'']
             \<inter> set [JStr ''sha256:c0'', JStr ''sha256:aa'', JStr ''sha256:bb'', JStr ''sha256:cc'']
           = {JStr ''sha256:aa'', JStr ''sha256:bb''}"
     "set [JStr ''sha256:c1'', JStr ''sha256:aa'', JStr ''sha256:bb'', JStr ''sha256:dd'']
             - set [JStr ''sha256:c0'', JStr ''sha256:aa'', JStr ''sha256:bb'', JStr ''sha256:cc'']
           = {JStr ''sha256:c1'', JStr ''sha256:dd''}"
    by auto
  show ?thesis
    using f diff_image_partition [OF 1 2 3 4 5 6] unfolding n s by simp
qed

subsection \<open>The staging directory\<close>

lemma preservesD: "preserves g m \<Longrightarrow> m w = (r, w') \<Longrightarrow> g w' = g w"
  by (auto simp add: preserves_def)

lemma preserves_imp_on_failure: "preserves g m \<Longrightarrow> preserves_on_failure g m"
  by (auto simp add: preserves_on_failure_def dest: preservesD)

lemma preserves_seq:
  assumes "preserves g m" and "\<And>v. preserves g (f v)"
  shows "preserves g (seq m f)"
  unfolding preserves_def
proof (intro allI impI)
  fix w r' w'
  assume a: "seq m f w = (r', w')"
  obtain r w1 where 1: "m w = (r, w1)" by (cases "m w")
  then have g1: "g w1 = g w" using assms(1) preservesD by blast
  show "g w' = g w"
  proof (cases r)
    case (Inl ex)
    then show ?thesis using a 1 g1 by (simp add: seq_def)
  next
    case (Inr v)
    then have "f v w1 = (r', w')" using a 1 by (simp add: seq_def)
    then have "g w' = g w1" using assms(2) preservesD by blast
    then show ?thesis using g1 by simp
  qed
qed

lemma preserves_on_failure_seq:
  assumes "preserves g m" and "\<And>v. preserves_on_failure g (f v)"
  shows "preserves_on_failure g (seq m f)"
  unfolding preserves_on_failure_def
proof (intro allI impI)
  fix w ex w'
  assume a: "seq m f w = (Inl ex, w')"
  obtain r w1 where 1: "m w = (r, w1)" by (cases "m w")
  then have g1: "g w1 = g w" using assms(1) preservesD by blast
  show "g w' = g w"
  proof (cases r)
    case (Inl ex1)
    then show ?thesis using a 1 g1 by (simp add: seq_def)
  next
    case (Inr v)
    then have "f v w1 = (Inl ex, w')" using a 1 by (simp add: seq_def)
    then have "g w' = g w1" using assms(2) by (auto simp add: preserves_on_failure_def)
    then show ?thesis using g1 by simp
  qed
qed

lemma preserves_for_each:
  assumes "\<And>x. preserves g (body x)"
  shows "preserves g (for_each xs body)"
proof (induction xs)
  case Nil
  then show ?case by (simp add: preserves_def ret_def)
next
  case (Cons x xs)
  then show ?case using assms by (simp add: preserves_seq)
qed

lemma preserves_basic [simp]:
  "preserves g (ret v)"
  "preserves g (raise ex)"
  "preserves g (lift r)"
  by (simp_all add: preserves_def ret_def raise_def lift_def)

lemma preserves_case_prod [intro!]:
  "(\<And>a b. preserves g (f a b)) \<Longrightarrow> preserves g (case_prod f p)"
  "(\<And>a b. preserves_on_failure g (f a b)) \<Longrightarrow> preserves_on_failure g (case_prod f p)"
  by (cases p; simp)+

lemma preserves_urlopen:
  assumes "\<And>w rs. g (w\<lparr>requests := rs\<rparr>) = g w"
  shows "urlopen e req w = (r, w') \<Longrightarrow> g w' = g w"
  using assms by (auto simp add: urlopen_def)
lemma on_success_seq:
  assumes "\<And>v. on_success P (f v)"
  shows "on_success P (seq m f)"
  using assms by (auto simp add: on_success_def seq_def split: prod.splits sum.splits)

lemma on_success_case_prod [intro!]:
  "(\<And>a b. on_success P (f a b)) \<Longrightarrow> on_success P (case_prod f p)"
  by (cases p) simp

lemma never_fails_imp [simp]:
  "preserves_on_failure g rmtree"
  "preserves_on_failure g makedirs"
  "preserves_on_failure g (run_command cmd)"
  "preserves_on_failure g (ret v)"
  by (simp_all add: preserves_on_failure_def rmtree_def makedirs_def modify_def run_command_def ret_def)

lemma preserves_on_failure_lift [simp]: "preserves_on_failure g (lift r)"
  by (simp add: preserves_on_failure_def lift_def)

lemma preserves_run_command [simp]:
  "preserves archives (run_command cmd)"
  "preserves (\<lambda>w. staging w = None) (run_command cmd)"
  "preserves staging (run_command cmd)"
  by (auto simp add: preserves_def run_command_def modify_def)

lemma preserves_push_images [simp]:
  "preserves archives (push_images e tags)"
  "preserves (\<lambda>w. staging w = None) (push_images e tags)"
  "preserves staging (push_images e tags)"
  unfolding push_images_def Let_def
  by (intro preserves_for_each preserves_seq preserves_run_command)+

lemma preserves_request_manifest [simp]:
  "preserves archives (request_manifest e tag)"
  "preserves (\<lambda>w. staging w = None) (request_manifest e tag)"
  by (auto simp add: preserves_def request_manifest_def urlopen_def Let_def print_error_def
      split: list.splits urlopen_result.splits response.splits if_splits)

lemma preserves_write_file [simp]:
  "preserves archives (write_file path content)"
  "preserves (\<lambda>w. staging w = None) (write_file path content)"
  by (auto simp add: preserves_def write_file_def split: option.splits)

lemma preserves_read_file [simp]:
  "preserves archives (read_file path)"
  "preserves (\<lambda>w. staging w = None) (read_file path)"
  by (auto simp add: preserves_def read_file_def split: option.splits)

lemma preserves_write_joined [simp]:
  "preserves archives (write_joined name joined)"
  "preserves (\<lambda>w. staging w = None) (write_joined name joined)"
  unfolding write_joined_def
  by (intro preserves_seq preserves_write_file preserves_basic)+

lemma preserves_download_blob [simp]:
  "preserves archives (download_blob e repo digest path)"
  "preserves (\<lambda>w. staging w = None) (download_blob e repo digest path)"
  by (auto simp add: preserves_def download_blob_def urlopen_def write_file_def Let_def
        print_error_def
      split: json.splits urlopen_result.splits response.splits if_splits option.splits)

lemma preserves_cross_mount [simp]:
  "preserves archives (cross_mount e target_repo base_repo digest)"
  "preserves (\<lambda>w. staging w = None) (cross_mount e target_repo base_repo digest)"
  by (auto simp add: preserves_def cross_mount_def urlopen_def Let_def print_error_def
      split: urlopen_result.splits response.splits if_splits)

lemma preserves_request_upload_session [simp]:
  "preserves archives (request_upload_session e repo)"
  "preserves (\<lambda>w. staging w = None) (request_upload_session e repo)"
  by (auto simp add: preserves_def request_upload_session_def urlopen_def Let_def print_error_def
      split: urlopen_result.splits response.splits if_splits)

lemma preserves_upload_blob [simp]:
  "preserves archives (upload_blob e repo digest blob_dir)"
  "preserves (\<lambda>w. staging w = None) (upload_blob e repo digest blob_dir)"
  unfolding upload_blob_def
  by (intro preserves_seq preserves_request_upload_session preserves_read_file;
      auto simp add: preserves_def urlopen_def Let_def print_error_def raise_def
        split: option.splits urlopen_result.splits)+

lemma preserves_upload_manifest [simp]:
  "preserves archives (upload_manifest e tag path media_type)"
  "preserves (\<lambda>w. staging w = None) (upload_manifest e tag path media_type)"
  by (auto simp add: preserves_def upload_manifest_def urlopen_def read_file_def Let_def
        print_error_def
      split: list.splits urlopen_result.splits option.splits)

lemma preserves_tar_add [simp]: "preserves (\<lambda>w. staging w = None) (tar_add name)"
  by (auto simp add: preserves_def tar_add_def split: option.splits)

lemma tar_add_failure [simp]: "preserves_on_failure archives (tar_add name)"
  by (auto simp add: preserves_on_failure_def tar_add_def split: option.splits)

lemma tar_add_then_rmtree [simp]:
  "preserves_on_failure archives (seq (tar_add name) (\<lambda>_. rmtree))"
  by (auto simp add: preserves_on_failure_def tar_add_def seq_def split: option.splits)

lemmas frame_intros =
  preserves_on_failure_seq preserves_seq preserves_for_each preserves_imp_on_failure

lemma preserves_archives_dirs [simp]:
  "preserves archives rmtree"
  "preserves archives makedirs"
  by (simp_all add: preserves_def rmtree_def makedirs_def modify_def)

lemma diff_image_failure_archives:
  "preserves_on_failure archives (diff_image e base_tag target_tag)"
  unfolding diff_image_def Let_def
  by (intro tar_add_then_rmtree preserves_on_failure_seq preserves_case_prod preserves_for_each)
     simp_all

lemma diff_rest_failure_staging:
  "preserves_on_failure (\<lambda>w. staging w = None)
     (seq (request_manifest e base_tag) (\<lambda>(base_manifest, _).
     seq (request_manifest e target_tag) (\<lambda>(target_manifest, target_manifest_media_type).
     seq (lift (parse_blob_list (loads e) base_manifest)) (\<lambda>base_blobs.
     seq (lift (parse_blob_list (loads e) target_manifest)) (\<lambda>target_blobs.
     seq (lift (and_then (py_set target_blobs) (\<lambda>t.
                and_then (py_set base_blobs) (\<lambda>b. Inr (set_minus t b))))) (\<lambda>diff_blobs.
     seq (lift (py_join '','' (set_order e diff_blobs))) (\<lambda>_.
     seq (for_each (set_order e diff_blobs)
            (\<lambda>digest. download_blob e target_repo digest ''blobs'')) (\<lambda>_.
     seq (write_file ''manifest.json'' target_manifest) (\<lambda>_.
     seq (write_file ''MANIFEST_MEDIA_TYPE'' target_manifest_media_type) (\<lambda>_.
     seq (write_file ''BASE'' base_tag) (\<lambda>_.
     seq (write_file ''TARGET'' target_tag) (\<lambda>_.
     seq (write_joined ''MOUNT_BLOBS''
            (and_then (py_set target_blobs) (\<lambda>t.
               py_join ''|'' (set_order e (set_minus t diff_blobs))))) (\<lambda>_.
     seq (write_joined ''UPLOAD_BLOBS'' (py_join ''|'' (set_order e diff_blobs))) (\<lambda>_.
     seq (tar_add archive_name) (\<lambda>_.
     rmtree)))))))))))))))"
  by (intro preserves_on_failure_seq preserves_case_prod preserves_for_each) simp_all

lemma diff_image_failure_staging:
  assumes "diff_image e base_tag target_tag w = (Inl ex, w')"
  shows "staging w' \<noteq> None"
proof -
  obtain cs where p: "push_images e [base_tag, target_tag] w = (Inr (), w\<lparr>commands := cs\<rparr>)"
    using push_images_commands by blast
  from assms have "(staging w' = None) = (staging (w\<lparr>commands := cs, staging := Some Map.empty\<rparr>) = None)"
    using diff_rest_failure_staging [of e "prepare_tag e base_tag" "prepare_tag e target_tag"]
    unfolding diff_image_def Let_def preserves_on_failure_def
    by (simp add: p seq_Inr)
  then show ?thesis by simp
qed

lemma diff_image_success_staging:
  "on_success (\<lambda>w. staging w = None) (diff_image e base_tag target_tag)"
  unfolding diff_image_def Let_def
  by (intro on_success_seq on_success_case_prod) (simp add: on_success_def)

lemma preserves_case_option [intro!]:
  "preserves g a \<Longrightarrow> (\<And>t. preserves g (b t)) \<Longrightarrow> preserves g (case_option a b x)"
  by (cases x) simp_all

lemma preserves_media_type_read [simp]:
  "preserves (\<lambda>w. staging w = None) read_media_type"
  by (auto simp add: preserves_def read_media_type_def read_file_def split: option.splits)

lemma load_tail_never_fails [simp]:
  "preserves_on_failure g
     (seq rmtree (\<lambda>_. if c then seq (run_command c1) (\<lambda>_. seq (run_command c2) (\<lambda>_. run_command c3))
                      else ret ()))"
  by (simp add: preserves_on_failure_def run_command_def modify_def ret_def)

lemma load_tail_success [simp]:
  "on_success (\<lambda>w. staging w = None)
     (seq rmtree (\<lambda>_. if c then seq (run_command c1) (\<lambda>_. seq (run_command c2) (\<lambda>_. run_command c3))
                      else ret ()))"
  by (simp add: on_success_def run_command_def modify_def ret_def)

lemma load_rest_failure_staging:
  "preserves_on_failure (\<lambda>w. staging w = None)
     (seq (case base_tag_arg of
            None \<Rightarrow> seq (read_file ''BASE'') (\<lambda>s. ret (strip s))
          | Some t \<Rightarrow> ret t) (\<lambda>base_tag.
     seq (push_images e [base_tag]) (\<lambda>_.
     seq (read_file ''TARGET'') (\<lambda>target_file.
     seq (read_file ''MOUNT_BLOBS'') (\<lambda>mount_file.
     seq (read_file ''UPLOAD_BLOBS'') (\<lambda>upload_file.
     seq read_media_type (\<lambda>manifest_media_type.
     seq (for_each (split CHR ''|'' (strip mount_file))
           (\<lambda>blob. cross_mount e (hd (split CHR '':'' (strip target_file)))
                     (hd (split CHR '':'' base_tag)) blob)) (\<lambda>_.
     seq (for_each (split CHR ''|'' (strip upload_file))
           (\<lambda>blob. upload_blob e (hd (split CHR '':'' (strip target_file))) blob ''blobs'')) (\<lambda>_.
     seq (upload_manifest e (strip target_file) ''manifest.json'' manifest_media_type) (\<lambda>_.
     seq rmtree (\<lambda>_.
     if contains ''localhost'' (ddiff_url e)
     then seq (run_command (''docker pull '' @ ddiff_url_base e @ ''/'' @ strip target_file)) (\<lambda>_.
          seq (run_command (''docker tag '' @ (ddiff_url_base e @ ''/'' @ strip target_file)
                             @ '' '' @ strip target_file)) (\<lambda>_.
          run_command (''docker rmi '' @ ddiff_url_base e @ ''/'' @ strip target_file)))
     else ret ())))))))))))"
  by (intro load_tail_never_fails preserves_on_failure_seq preserves_case_option preserves_seq
        preserves_for_each)
     simp_all

lemma load_image_failure_staging:
  assumes "load_image e base_tag_arg image_tarball w = (Inl ex, w')"
  shows "(staging w' \<noteq> None) = (archives w image_tarball \<noteq> None)"
proof (cases "archives w image_tarball")
  case None
  then show ?thesis
    using assms by (auto simp add: load_image_def tar_extractall_def seq_def)
next
  case (Some package)
  then have x: "tar_extractall image_tarball (w\<lparr>staging := None\<rparr>)
                  = (Inr (), w\<lparr>staging := Some package\<rparr>)"
    by (simp add: tar_extractall_def)
  from assms have "(staging w' = None) = (staging (w\<lparr>staging := Some package\<rparr>) = None)"
    using load_rest_failure_staging [of base_tag_arg e]
    unfolding load_image_def Let_def preserves_on_failure_def
    by (simp add: seq_Inr [where m = "tar_extractall image_tarball", OF x])
  then show ?thesis using Some by simp
qed

lemma load_image_success_staging:
  "on_success (\<lambda>w. staging w = None) (load_image e base_tag_arg image_tarball)"
  unfolding load_image_def Let_def
  by (intro load_tail_success on_success_seq)

text \<open>
  C5, as the code has it. \<^verbatim>\<open>diff_image\<close> and \<^verbatim>\<open>load_image\<close> remove the staging
  directory when they return normally. When they raise, it is left behind: always for
  \<^verbatim>\<open>diff_image\<close>, and for \<^verbatim>\<open>load_image\<close> whenever the archive could be unpacked. (Both
  remove a stale directory when they start.)
\<close>

theorem staging_removed_on_success_only:
  "(diff_image e base_tag target_tag w = (Inr u, w') \<longrightarrow> staging w' = None)
   \<and> (diff_image e base_tag target_tag w = (Inl ex, w') \<longrightarrow> staging w' \<noteq> None)
   \<and> (load_image e base_tag_arg image_tarball w = (Inr u, w') \<longrightarrow> staging w' = None)
   \<and> (load_image e base_tag_arg image_tarball w = (Inl ex, w') \<longrightarrow>
        (staging w' \<noteq> None) = (archives w image_tarball \<noteq> None))"
  using diff_image_success_staging [of e base_tag target_tag]
    load_image_success_staging [of e base_tag_arg image_tarball]
    diff_image_failure_staging [of e base_tag target_tag w ex w']
    load_image_failure_staging [of e base_tag_arg image_tarball w ex w']
  unfolding on_success_def by blast


text \<open>
  The claim C5 as it is written fails on the failure paths: a manifest that the registry
  does not have makes \<^verbatim>\<open>diff_image\<close> raise, a refused mount makes \<^verbatim>\<open>load_image\<close> raise,
  and in both cases the staging directory is still there.
\<close>

theorem staging_left_after_failure:
  "fst (diff_image example_env ''base:1'' ''app:missing'' example_world) = Inl RuntimeError
   \<and> staging (snd (diff_image example_env ''base:1'' ''app:missing'' example_world)) \<noteq> None
   \<and> fst (load_image example_env (Some ''other:1'') ''app-2.tar.gz'' example_world) = Inl RuntimeError
   \<and> staging (snd (load_image example_env (Some ''other:1'') ''app-2.tar.gz'' example_world)) \<noteq> None"
proof -
  have "fst (diff_image example_env ''base:1'' ''app:missing'' example_world) = Inl RuntimeError
   \<and> \<not> Option.is_none (staging (snd (diff_image example_env ''base:1'' ''app:missing'' example_world)))
   \<and> fst (load_image example_env (Some ''other:1'') ''app-2.tar.gz'' example_world) = Inl RuntimeError
   \<and> \<not> Option.is_none (staging (snd (load_image example_env (Some ''other:1'') ''app-2.tar.gz'' example_world)))"
    by code_simp
  then show ?thesis by (simp add: Option.is_none_def)
qed

theorem staging_removed_on_success_only_witness:
  "staging (snd (diff_image example_env ''base:1'' ''app:2'' example_world)) = None
   \<and> staging (snd (diff_image example_env ''base:1'' ''app:missing'' example_world)) \<noteq> None
   \<and> staging (snd (load_image example_env None ''app-2.tar.gz'' example_world)) = None
   \<and> staging (snd (load_image example_env (Some ''other:1'') ''app-2.tar.gz'' example_world)) \<noteq> None"
proof -
  have 1: "diff_image example_env ''base:1'' ''app:2'' example_world
            = (Inr (), snd (diff_image example_env ''base:1'' ''app:2'' example_world))"
    by (rule pair_fst_snd) code_simp
  have 2: "diff_image example_env ''base:1'' ''app:missing'' example_world
            = (Inl RuntimeError, snd (diff_image example_env ''base:1'' ''app:missing'' example_world))"
    by (rule pair_fst_snd) code_simp
  have 3: "load_image example_env None ''app-2.tar.gz'' example_world
            = (Inr (), snd (load_image example_env None ''app-2.tar.gz'' example_world))"
    by (rule pair_fst_snd) code_simp
  have 4: "load_image example_env (Some ''other:1'') ''app-2.tar.gz'' example_world
            = (Inl RuntimeError,
               snd (load_image example_env (Some ''other:1'') ''app-2.tar.gz'' example_world))"
    by (rule pair_fst_snd) code_simp
  have 5: "archives example_world ''app-2.tar.gz'' \<noteq> None"
    by (simp add: example_world_def)
  show ?thesis
    using staging_removed_on_success_only [THEN conjunct1, rule_format, OF 1]
      staging_removed_on_success_only [THEN conjunct2, THEN conjunct1, rule_format, OF 2]
      staging_removed_on_success_only [THEN conjunct2, THEN conjunct2, THEN conjunct1, rule_format, OF 3]
      staging_removed_on_success_only [THEN conjunct2, THEN conjunct2, THEN conjunct2, rule_format, OF 4]
      5
    by simp
qed

subsection \<open>A download that fails\<close>

lemma download_blob_str_result:
  assumes "download_blob e repo (JStr digest) path w = (r, w')"
  shows "r = Inr () \<or> r = Inl RuntimeError"
  using assms
  by (auto simp add: download_blob_def urlopen_def write_file_def Let_def print_error_def
      split: urlopen_result.splits response.splits if_splits option.splits)

lemma download_blob_fails:
  assumes "\<not> digest_format digest \<or>
           (\<forall>history. case registry e history
                          (Request GET (ddiff_url e @ ''/v2/'' @ repo @ ''/blobs/'' @ digest) [] None) of
                         Opened (Response status headers body whole) \<Rightarrow> \<not> whole
                       | _ \<Rightarrow> True)"
  shows "fst (download_blob e repo (JStr digest) path w) = Inl RuntimeError"
proof (cases "digest_format digest")
  case False
  then show ?thesis by (simp add: download_blob_def print_error_def)
next
  case True
  with assms have "case registry e (requests w)
                          (Request GET (ddiff_url e @ ''/v2/'' @ repo @ ''/blobs/'' @ digest) [] None) of
                         Opened (Response status headers body whole) \<Rightarrow> \<not> whole
                       | _ \<Rightarrow> True"
    by blast
  with True show ?thesis
    by (auto simp add: download_blob_def urlopen_def write_file_def Let_def print_error_def
      split: urlopen_result.splits response.splits option.splits)
qed

lemma for_each_download_fails:
  assumes "list_all is_str digests"
    and "JStr digest \<in> set digests"
    and "\<And>w. fst (download_blob e repo (JStr digest) path w) = Inl RuntimeError"
  shows "fst (for_each digests (\<lambda>d. download_blob e repo d path) w) = Inl RuntimeError"
  using assms(1,2)
proof (induction digests arbitrary: w)
  case Nil
  then show ?case by simp
next
  case (Cons x xs)
  obtain r w1 where 1: "download_blob e repo x path w = (r, w1)"
    by (cases "download_blob e repo x path w")
  from Cons.prems(1) obtain s where s: "x = JStr s" by (cases x) auto
  show ?case
  proof (cases "x = JStr digest")
    case True
    then have "r = Inl RuntimeError" using assms(3) [of w] 1 by simp
    then show ?thesis by (simp add: seq_def 1)
  next
    case False
    with Cons.prems have xs: "list_all is_str xs" "JStr digest \<in> set xs" by auto
    from 1 s have "r = Inr () \<or> r = Inl RuntimeError"
      using download_blob_str_result by blast
    then show ?thesis
    proof
      assume "r = Inr ()"
      then show ?thesis using Cons.IH [OF xs, of w1] by (simp add: seq_def 1)
    next
      assume "r = Inl RuntimeError"
      then show ?thesis by (simp add: seq_def 1)
    qed
  qed
qed

text \<open>
  C8. Once \<^verbatim>\<open>diff_image\<close> has fetched and parsed the two manifests and has the
  exclusive digests (all of them strings), a failure to download any one of them makes it
  raise before the archive is written: the digest does not have the format of a digest, or
  the registry answers its request, whenever it comes, with an HTTP error, with another
  error, or with a body that breaks off. The archives are those of the start.
\<close>

theorem download_failure_aborts_pack:
  assumes fetched_base: "request_manifest e (prepare_tag e base_tag)
             (snd (makedirs (snd (rmtree (snd (push_images e [base_tag, target_tag] w))))))
           = (Inr (base_manifest, base_type), w2)"
    and fetched_target: "request_manifest e (prepare_tag e target_tag) w2
           = (Inr (target_manifest, target_type), w3)"
    and parsed_base: "parse_blob_list (loads e) base_manifest = Inr base_blobs"
    and parsed_target: "parse_blob_list (loads e) target_manifest = Inr target_blobs"
    and sets: "py_set target_blobs = Inr t" "py_set base_blobs = Inr b"
    and strings: "list_all is_str (set_order e (set_minus t b))"
    and exclusive: "JStr digest \<in> set (set_order e (set_minus t b))"
    and fails: "\<not> digest_format digest \<or>
           (\<forall>history. case registry e history
                          (Request GET (ddiff_url e @ ''/v2/''
                             @ hd (split CHR '':'' (prepare_tag e target_tag))
                             @ ''/blobs/'' @ digest) [] None) of
                         Opened (Response status headers body whole) \<Rightarrow> \<not> whole
                       | _ \<Rightarrow> True)"
  shows "fst (diff_image e base_tag target_tag w) = Inl RuntimeError
       \<and> archives (snd (diff_image e base_tag target_tag w)) = archives w"
proof -
  let ?repo = "hd (split CHR '':'' (prepare_tag e target_tag))"
  let ?loop = "for_each (set_order e (set_minus t b)) (\<lambda>d. download_blob e ?repo d ''blobs'')"
  note d = diff_image_after_manifests [OF fetched_base fetched_target]
  have single: "fst (download_blob e ?repo (JStr digest) ''blobs'' w0) = Inl RuntimeError" for w0
    using fails by (rule download_blob_fails)
  have "fst (?loop w3) = Inl RuntimeError"
    using strings exclusive single by (rule for_each_download_fails)
  then have l: "?loop w3 = (Inl RuntimeError, snd (?loop w3))"
    by (rule pair_fst_snd)
  have j: "py_join '','' (set_order e (set_minus t b))
             = Inr (join '','' (map str_of (set_order e (set_minus t b))))"
    using strings by (simp add: py_join_def)
  have r: "diff_image e base_tag target_tag w = (Inl RuntimeError, snd (?loop w3))"
    unfolding d by (simp add: parsed_base parsed_target sets j seq_Inl [where m = ?loop, OF l])
  have "preserves_on_failure archives (diff_image e base_tag target_tag)"
    by (rule diff_image_failure_archives)
  then have "archives (snd (?loop w3)) = archives w"
    unfolding preserves_on_failure_def using r by blast
  with r show ?thesis by simp
qed

theorem download_failure_aborts_pack_witness:
  "fst (diff_image example_env ''base:1'' ''app:broken'' example_world) = Inl RuntimeError
   \<and> archives (snd (diff_image example_env ''base:1'' ''app:broken'' example_world))
       = archives example_world"
proof -
  let ?w1 = "snd (makedirs (snd (rmtree (snd
               (push_images example_env [''base:1'', ''app:broken''] example_world)))))"
  let ?w2 = "snd (request_manifest example_env (prepare_tag example_env ''base:1'') ?w1)"
  let ?w3 = "snd (request_manifest example_env (prepare_tag example_env ''app:broken'') ?w2)"
  have 1: "request_manifest example_env (prepare_tag example_env ''base:1'') ?w1
             = (Inr (''BASE'', DOCKER_MANIFEST_V2), ?w2)"
    by (rule pair_fst_snd) code_simp
  have 2: "request_manifest example_env (prepare_tag example_env ''app:broken'') ?w2
             = (Inr (''BROKEN'', DOCKER_MANIFEST_V2), ?w3)"
    by (rule pair_fst_snd) code_simp
  have 3: "parse_blob_list (loads example_env) ''BASE''
             = Inr [JStr ''sha256:c0'', JStr ''sha256:aa'', JStr ''sha256:bb'', JStr ''sha256:cc'']"
    by code_simp
  have 4: "parse_blob_list (loads example_env) ''BROKEN''
             = Inr [JStr ''sha256:c1'', JStr ''sha256:aa'', JStr ''sha256:ee'']"
    by code_simp
  have 5: "py_set [JStr ''sha256:c1'', JStr ''sha256:aa'', JStr ''sha256:ee'']
             = Inr [JStr ''sha256:c1'', JStr ''sha256:aa'', JStr ''sha256:ee'']"
    by code_simp
  have 6: "py_set [JStr ''sha256:c0'', JStr ''sha256:aa'', JStr ''sha256:bb'', JStr ''sha256:cc'']
             = Inr [JStr ''sha256:c0'', JStr ''sha256:aa'', JStr ''sha256:bb'', JStr ''sha256:cc'']"
    by code_simp
  have 7: "list_all is_str (set_order example_env
             (set_minus [JStr ''sha256:c1'', JStr ''sha256:aa'', JStr ''sha256:ee'']
                [JStr ''sha256:c0'', JStr ''sha256:aa'', JStr ''sha256:bb'', JStr ''sha256:cc'']))"
    by code_simp
  have 8: "JStr ''sha256:ee'' \<in> set (set_order example_env
             (set_minus [JStr ''sha256:c1'', JStr ''sha256:aa'', JStr ''sha256:ee'']
                [JStr ''sha256:c0'', JStr ''sha256:aa'', JStr ''sha256:bb'', JStr ''sha256:cc'']))"
    by code_simp
  have "registry example_env history
          (Request GET (ddiff_url example_env @ ''/v2/''
             @ hd (split CHR '':'' (prepare_tag example_env ''app:broken''))
             @ ''/blobs/'' @ ''sha256:ee'') [] None) = HTTPErr 404" for history
    by (simp add: example_env_def example_registry_def prepare_tag_def)
  then have 9: "\<not> digest_format ''sha256:ee'' \<or>
           (\<forall>history. case registry example_env history
                          (Request GET (ddiff_url example_env @ ''/v2/''
                             @ hd (split CHR '':'' (prepare_tag example_env ''app:broken''))
                             @ ''/blobs/'' @ ''sha256:ee'') [] None) of
                         Opened (Response status headers body whole) \<Rightarrow> \<not> whole
                       | _ \<Rightarrow> True)"
    by simp
  show ?thesis
    by (rule download_failure_aborts_pack [OF 1 2 3 4 5 6 7 8 9])
qed

subsection \<open>Replay: mounts and uploads\<close>

lemma load_image_after_reads:
  assumes package: "archives w image_tarball = Some package"
    and base: "case base_tag_arg of
                 None \<Rightarrow> (\<exists>base_file. package ''BASE'' = Some base_file \<and> base_tag = strip base_file)
               | Some t \<Rightarrow> base_tag = t"
    and target: "package ''TARGET'' = Some target_file"
    and mount: "package ''MOUNT_BLOBS'' = Some mount_file"
    and upload: "package ''UPLOAD_BLOBS'' = Some upload_file"
  shows "load_image e base_tag_arg image_tarball w =
     seq (for_each (split CHR ''|'' (strip mount_file))
           (\<lambda>blob. cross_mount e (hd (split CHR '':'' (strip target_file)))
                     (hd (split CHR '':'' base_tag)) blob)) (\<lambda>_.
     seq (for_each (split CHR ''|'' (strip upload_file))
           (\<lambda>blob. upload_blob e (hd (split CHR '':'' (strip target_file))) blob ''blobs'')) (\<lambda>_.
     seq (upload_manifest e (strip target_file) ''manifest.json''
            (case package ''MANIFEST_MEDIA_TYPE'' of
               None \<Rightarrow> DOCKER_MANIFEST_V2
             | Some s \<Rightarrow> if strip s = [] then DOCKER_MANIFEST_V2 else strip s)) (\<lambda>_.
     seq rmtree (\<lambda>_.
     if contains ''localhost'' (ddiff_url e)
     then seq (run_command (''docker pull '' @ ddiff_url_base e @ ''/'' @ strip target_file)) (\<lambda>_.
          seq (run_command (''docker tag '' @ (ddiff_url_base e @ ''/'' @ strip target_file)
                             @ '' '' @ strip target_file)) (\<lambda>_.
          run_command (''docker rmi '' @ ddiff_url_base e @ ''/'' @ strip target_file)))
     else ret ()))))
     (snd (push_images e [base_tag] (w\<lparr>staging := Some package\<rparr>)))"
proof -
  let ?w1 = "w\<lparr>staging := Some package\<rparr>"
  obtain cs where p: "push_images e [base_tag] ?w1 = (Inr (), ?w1\<lparr>commands := cs\<rparr>)"
    using push_images_commands [of e "[base_tag]" ?w1] by auto
  let ?w2 = "?w1\<lparr>commands := cs\<rparr>"
  have x: "tar_extractall image_tarball (w\<lparr>staging := None\<rparr>) = (Inr (), ?w1)"
    using package by (simp add: tar_extractall_def)
  have b: "(case base_tag_arg of
              None \<Rightarrow> seq (read_file ''BASE'') (\<lambda>s. ret (strip s))
            | Some t \<Rightarrow> ret t) ?w1 = (Inr base_tag, ?w1)"
    using base by (cases base_tag_arg) (auto simp add: read_file_def seq_def ret_def)
  have rt: "read_file ''TARGET'' ?w2 = (Inr target_file, ?w2)"
    and rm: "read_file ''MOUNT_BLOBS'' ?w2 = (Inr mount_file, ?w2)"
    and ru: "read_file ''UPLOAD_BLOBS'' ?w2 = (Inr upload_file, ?w2)"
    using target mount upload by (simp_all add: read_file_def)
  have mt: "read_media_type ?w2
              = (Inr (case package ''MANIFEST_MEDIA_TYPE'' of
                        None \<Rightarrow> DOCKER_MANIFEST_V2
                      | Some s \<Rightarrow> if strip s = [] then DOCKER_MANIFEST_V2 else strip s), ?w2)"
    by (simp add: read_media_type_def read_file_def split: option.splits)
  show ?thesis
    unfolding load_image_def Let_def
    by (simp add: seq_Inr [where m = "tar_extractall image_tarball", OF x]
          seq_Inr [where m = "case_option (seq (read_file ''BASE'') (\<lambda>s. ret (strip s))) ret base_tag_arg", OF b]
          seq_Inr [where m = "push_images e [base_tag]", OF p]
          seq_Inr [where m = "read_file ''TARGET''", OF rt]
          seq_Inr [where m = "read_file ''MOUNT_BLOBS''", OF rm]
          seq_Inr [where m = "read_file ''UPLOAD_BLOBS''", OF ru]
          seq_Inr [where m = read_media_type, OF mt] p)
qed

lemma cross_mount_201:
  assumes "registry e (requests w) (mount_request e target_repo base_repo digest)
             = Opened (Response 201 headers body whole)"
  shows "cross_mount e target_repo base_repo digest w
           = (Inr (), w\<lparr>requests := requests w @ [mount_request e target_repo base_repo digest]\<rparr>)"
  using assms by (simp add: cross_mount_def urlopen_def mount_request_def)

lemma cross_mount_202:
  assumes "registry e (requests w) (mount_request e target_repo base_repo digest)
             = Opened (Response 202 headers body whole)"
  shows "cross_mount e target_repo base_repo digest w
           = (Inl RuntimeError,
              w\<lparr>requests := requests w @ [mount_request e target_repo base_repo digest]\<rparr>)"
  using assms by (simp add: cross_mount_def urlopen_def mount_request_def print_error_def)

lemma for_each_mount_refused:
  assumes mounted: "\<forall>d \<in> set mounted. \<forall>history. \<exists>headers body whole.
             registry e history (mount_request e target_repo base_repo d)
               = Opened (Response 201 headers body whole)"
    and refused: "\<forall>history. \<exists>headers body whole.
             registry e history (mount_request e target_repo base_repo digest)
               = Opened (Response 202 headers body whole)"
  shows "for_each (mounted @ digest # rest) (cross_mount e target_repo base_repo) w
           = (Inl RuntimeError,
              w\<lparr>requests := requests w
                     @ map (mount_request e target_repo base_repo) (mounted @ [digest])\<rparr>)"
  using mounted
proof (induction mounted arbitrary: w)
  case Nil
  from refused obtain headers body whole where
    "registry e (requests w) (mount_request e target_repo base_repo digest)
       = Opened (Response 202 headers body whole)"
    by blast
  then show ?case by (simp add: seq_def cross_mount_202)
next
  case (Cons d ds)
  then obtain headers body whole where
    "registry e (requests w) (mount_request e target_repo base_repo d)
       = Opened (Response 201 headers body whole)"
    by (meson list.set_intros(1))
  then have 1: "cross_mount e target_repo base_repo d w
           = (Inr (), w\<lparr>requests := requests w @ [mount_request e target_repo base_repo d]\<rparr>)"
    by (rule cross_mount_201)
  from Cons.prems have "\<forall>d \<in> set ds. \<forall>history. \<exists>headers body whole.
             registry e history (mount_request e target_repo base_repo d)
               = Opened (Response 201 headers body whole)"
    by simp
  from Cons.IH [OF this] show ?case by (simp add: seq_def 1)
qed

text \<open>
  C6. \<^verbatim>\<open>load_image\<close> has unpacked the package and read its files. When the registry
  answers the cross-mounts of the digests before \<open>digest\<close> with 201 and the cross-mount of
  \<open>digest\<close> with 202, \<^verbatim>\<open>load_image\<close> raises, and the requests it has sent are the
  cross-mounts up to that of \<open>digest\<close> and nothing else: a 201 lets the loop go on, the
  202 ends the replay, and nothing is uploaded in its place.
\<close>

theorem refused_mount_aborts_replay:
  assumes package: "archives w image_tarball = Some package"
    and base: "case base_tag_arg of
                 None \<Rightarrow> (\<exists>base_file. package ''BASE'' = Some base_file \<and> base_tag = strip base_file)
               | Some t \<Rightarrow> base_tag = t"
    and target: "package ''TARGET'' = Some target_file"
    and mount: "package ''MOUNT_BLOBS'' = Some mount_file"
    and upload: "package ''UPLOAD_BLOBS'' = Some upload_file"
    and repos: "target_repo = hd (split CHR '':'' (strip target_file))"
               "base_repo = hd (split CHR '':'' base_tag)"
    and digests: "split CHR ''|'' (strip mount_file) = mounted @ digest # rest"
    and mounted: "\<forall>d \<in> set mounted. \<forall>history. \<exists>headers body whole.
             registry e history (mount_request e target_repo base_repo d)
               = Opened (Response 201 headers body whole)"
    and refused: "\<forall>history. \<exists>headers body whole.
             registry e history (mount_request e target_repo base_repo digest)
               = Opened (Response 202 headers body whole)"
  shows "fst (load_image e base_tag_arg image_tarball w) = Inl RuntimeError
       \<and> requests (snd (load_image e base_tag_arg image_tarball w))
           = requests w @ map (mount_request e target_repo base_repo) (mounted @ [digest])"
proof -
  let ?wr = "snd (push_images e [base_tag] (w\<lparr>staging := Some package\<rparr>))"
  obtain cs where "push_images e [base_tag] (w\<lparr>staging := Some package\<rparr>)
                     = (Inr (), w\<lparr>staging := Some package\<rparr>\<lparr>commands := cs\<rparr>)"
    using push_images_commands by blast
  then have rq: "requests ?wr = requests w"
    by simp
  have l: "for_each (split CHR ''|'' (strip mount_file)) (cross_mount e target_repo base_repo) ?wr
           = (Inl RuntimeError,
              ?wr\<lparr>requests := requests ?wr
                     @ map (mount_request e target_repo base_repo) (mounted @ [digest])\<rparr>)"
    unfolding digests using mounted refused by (rule for_each_mount_refused)
  show ?thesis
    unfolding load_image_after_reads [OF package base target mount upload] repos [symmetric]
    by (simp add: seq_Inl [where m = "for_each (split CHR ''|'' (strip mount_file))
                                        (cross_mount e target_repo base_repo)", OF l] rq)
qed

lemma for_each_single: "seq (for_each [x] body) f = seq (body x) f"
  by (rule ext) (simp add: seq_def ret_def split: prod.splits sum.splits)

lemma upload_blob_first_request:
  "take (Suc (length (requests w))) (requests (snd (upload_blob e repo digest blob_dir w)))
     = requests w @ [Request POST (ddiff_url e @ ''/v2/'' @ repo @ ''/blobs/uploads/'') [] None]"
  by (auto simp add: upload_blob_def request_upload_session_def read_file_def urlopen_def seq_def
        raise_def Let_def print_error_def
      split: urlopen_result.splits response.splits option.splits prod.splits sum.splits)

text \<open>
  C10. \<^verbatim>\<open>load_image\<close> has unpacked the package and read its files; \<open>wr\<close> is the state
  in which the mounts start and \<open>finish\<close> what follows the uploads. When
  \<^verbatim>\<open>MOUNT_BLOBS\<close> is empty or blank, splitting it gives the list of the empty string,
  and the mount phase is one call of \<^verbatim>\<open>_cross_mount\<close> with the empty digest, which sends
  one request. When \<^verbatim>\<open>UPLOAD_BLOBS\<close> is empty or blank, the upload phase is one call of
  \<^verbatim>\<open>_upload_blob\<close> with the empty digest, which starts by opening an upload session.
\<close>

theorem empty_digest_file_runs_once:
  assumes package: "archives w image_tarball = Some package"
    and base: "case base_tag_arg of
                 None \<Rightarrow> (\<exists>base_file. package ''BASE'' = Some base_file \<and> base_tag = strip base_file)
               | Some t \<Rightarrow> base_tag = t"
    and target: "package ''TARGET'' = Some target_file"
    and mount: "package ''MOUNT_BLOBS'' = Some mount_file"
    and upload: "package ''UPLOAD_BLOBS'' = Some upload_file"
    and repos: "target_repo = hd (split CHR '':'' (strip target_file))"
               "base_repo = hd (split CHR '':'' base_tag)"
    and finish: "finish =
       seq (upload_manifest e (strip target_file) ''manifest.json''
            (case package ''MANIFEST_MEDIA_TYPE'' of
               None \<Rightarrow> DOCKER_MANIFEST_V2
             | Some s \<Rightarrow> if strip s = [] then DOCKER_MANIFEST_V2 else strip s)) (\<lambda>_.
       seq rmtree (\<lambda>_.
       if contains ''localhost'' (ddiff_url e)
       then seq (run_command (''docker pull '' @ ddiff_url_base e @ ''/'' @ strip target_file)) (\<lambda>_.
            seq (run_command (''docker tag '' @ (ddiff_url_base e @ ''/'' @ strip target_file)
                               @ '' '' @ strip target_file)) (\<lambda>_.
            run_command (''docker rmi '' @ ddiff_url_base e @ ''/'' @ strip target_file)))
       else ret ()))"
    and start: "wr = snd (push_images e [base_tag] (w\<lparr>staging := Some package\<rparr>))"
  shows "(strip mount_file = [] \<longrightarrow>
            split CHR ''|'' (strip mount_file) = ['''']
          \<and> load_image e base_tag_arg image_tarball w =
              seq (cross_mount e target_repo base_repo '''') (\<lambda>_.
              seq (for_each (split CHR ''|'' (strip upload_file))
                    (\<lambda>blob. upload_blob e target_repo blob ''blobs'')) (\<lambda>_. finish)) wr
          \<and> requests (snd (cross_mount e target_repo base_repo '''' wr))
              = requests w @ [mount_request e target_repo base_repo ''''])
       \<and> (strip upload_file = [] \<longrightarrow>
            split CHR ''|'' (strip upload_file) = ['''']
          \<and> load_image e base_tag_arg image_tarball w =
              seq (for_each (split CHR ''|'' (strip mount_file))
                    (\<lambda>blob. cross_mount e target_repo base_repo blob)) (\<lambda>_.
              seq (upload_blob e target_repo '''' ''blobs'') (\<lambda>_. finish)) wr
          \<and> take (Suc (length (requests w0)))
                (requests (snd (upload_blob e target_repo '''' ''blobs'' w0)))
              = requests w0
                @ [Request POST (ddiff_url e @ ''/v2/'' @ target_repo @ ''/blobs/uploads/'') [] None])"
proof -
note l = load_image_after_reads [OF package base target mount upload]
  obtain cs where "push_images e [base_tag] (w\<lparr>staging := Some package\<rparr>)
                     = (Inr (), w\<lparr>staging := Some package\<rparr>\<lparr>commands := cs\<rparr>)"
    using push_images_commands by blast
  then have rq: "requests wr = requests w"
    by (simp add: start)
  have m: "requests (snd (cross_mount e target_repo base_repo '''' wr))
              = requests w @ [mount_request e target_repo base_repo '''']"
    by (auto simp add: cross_mount_def urlopen_def mount_request_def rq Let_def print_error_def
        split: urlopen_result.splits response.splits)
  have 1: "split CHR ''|'' (strip mount_file) = ['''']
          \<and> load_image e base_tag_arg image_tarball w =
              seq (cross_mount e target_repo base_repo '''') (\<lambda>_.
              seq (for_each (split CHR ''|'' (strip upload_file))
                    (\<lambda>blob. upload_blob e target_repo blob ''blobs'')) (\<lambda>_. finish)) wr"
    if e: "strip mount_file = []"
  proof -
    have s: "split CHR ''|'' (strip mount_file) = ['''']" by (simp add: e)
    show ?thesis
      unfolding l s for_each_single finish start repos by simp
  qed
  have 2: "split CHR ''|'' (strip upload_file) = ['''']
          \<and> load_image e base_tag_arg image_tarball w =
              seq (for_each (split CHR ''|'' (strip mount_file))
                    (\<lambda>blob. cross_mount e target_repo base_repo blob)) (\<lambda>_.
              seq (upload_blob e target_repo '''' ''blobs'') (\<lambda>_. finish)) wr"
    if e: "strip upload_file = []"
  proof -
    have s: "split CHR ''|'' (strip upload_file) = ['''']" by (simp add: e)
    show ?thesis
      unfolding l s for_each_single finish start repos by simp
  qed
  show ?thesis
    using 1 2 m upload_blob_first_request [of w0 e target_repo "''''" "''blobs''"] by blast
qed

theorem refused_mount_aborts_replay_witness:
  "fst (load_image example_env (Some ''other:1'') ''app-2.tar.gz'' example_world) = Inl RuntimeError
   \<and> requests (snd (load_image example_env (Some ''other:1'') ''app-2.tar.gz'' example_world))
       = [Request POST
            ''http://localhost:5000/v2/app/blobs/uploads/?mount=sha256:aa&from=other'' [] None,
          Request POST
            ''http://localhost:5000/v2/app/blobs/uploads/?mount=sha256:bb&from=other'' [] None]"
proof -
  have 1: "archives example_world ''app-2.tar.gz'' = Some example_package"
    by (simp add: example_world_def)
  have 2: "case Some ''other:1'' of
             None \<Rightarrow> (\<exists>base_file. example_package ''BASE'' = Some base_file
                        \<and> ''other:1'' = strip base_file)
           | Some t \<Rightarrow> ''other:1'' = t"
    by simp
  have 3: "example_package ''TARGET'' = Some ''app:2''"
    and 4: "example_package ''MOUNT_BLOBS'' = Some ''sha256:aa|sha256:bb''"
    and 5: "example_package ''UPLOAD_BLOBS'' = Some ''sha256:c1|sha256:dd''"
    by (simp_all add: example_package_def)
  have 6: "''app'' = hd (split CHR '':'' (strip ''app:2''))"
    and 7: "''other'' = hd (split CHR '':'' ''other:1'')"
    and 8: "split CHR ''|'' (strip ''sha256:aa|sha256:bb'') = [''sha256:aa''] @ ''sha256:bb'' # []"
    by code_simp+
  have 9: "\<forall>d \<in> set [''sha256:aa'']. \<forall>history. \<exists>headers body whole.
             registry example_env history (mount_request example_env ''app'' ''other'' d)
               = Opened (Response 201 headers body whole)"
    by (auto simp add: example_env_def example_registry_def mount_request_def)
  have 10: "\<forall>history. \<exists>headers body whole.
             registry example_env history (mount_request example_env ''app'' ''other'' ''sha256:bb'')
               = Opened (Response 202 headers body whole)"
    by (auto simp add: example_env_def example_registry_def mount_request_def)
  have "map (mount_request example_env ''app'' ''other'') ([''sha256:aa''] @ [''sha256:bb''])
          = [Request POST
               ''http://localhost:5000/v2/app/blobs/uploads/?mount=sha256:aa&from=other'' [] None,
             Request POST
               ''http://localhost:5000/v2/app/blobs/uploads/?mount=sha256:bb&from=other'' [] None]"
    by (simp add: mount_request_def example_env_def)
  moreover have "requests example_world = []"
    by (simp add: example_world_def)
  ultimately show ?thesis
    using refused_mount_aborts_replay [OF 1 2 3 4 5 6 7 8 9 10] by simp
qed

theorem empty_digest_file_runs_once_witness:
  "split CHR ''|'' (strip '''') = ['''']
   \<and> requests (snd (load_image example_env None ''empty.tar.gz'' example_world))
       = [Request POST ''http://localhost:5000/v2/app/blobs/uploads/?mount=&from=base'' [] None]
   \<and> take 1 (requests (snd (upload_blob example_env ''app'' '''' ''blobs'' example_world)))
       = [Request POST ''http://localhost:5000/v2/app/blobs/uploads/'' [] None]
   \<and> requests (snd (load_image example_env None ''mount-only.tar.gz'' example_world))
       = [Request POST
            ''http://localhost:5000/v2/app/blobs/uploads/?mount=sha256:aa&from=base'' [] None,
          Request POST ''http://localhost:5000/v2/app/blobs/uploads/'' [] None]"
proof -
  have 1: "archives example_world ''empty.tar.gz'' = Some example_empty_package"
    by (simp add: example_world_def)
  have 2: "case None of
             None \<Rightarrow> (\<exists>base_file. example_empty_package ''BASE'' = Some base_file
                        \<and> ''base:1'' = strip base_file)
           | Some t \<Rightarrow> ''base:1'' = t"
    by (simp add: example_empty_package_def strip_def isspace_def)
  have 3: "example_empty_package ''TARGET'' = Some ''app:2''"
    and 4: "example_empty_package ''MOUNT_BLOBS'' = Some ''''"
    and 5: "example_empty_package ''UPLOAD_BLOBS'' = Some ''''"
    by (simp_all add: example_empty_package_def)
  have 6: "''app'' = hd (split CHR '':'' (strip ''app:2''))"
    and 7: "''base'' = hd (split CHR '':'' ''base:1'')"
    by code_simp+
  have e: "strip '''' = []"
    by (simp add: strip_def)
  note t = empty_digest_file_runs_once [OF 1 2 3 4 5 6 7 refl refl, where ?w0.0 = example_world]
  have a: "split CHR ''|'' (strip '''') = ['''']"
    using t e by blast
  have c: "requests (snd (load_image example_env None ''empty.tar.gz'' example_world))
       = [Request POST ''http://localhost:5000/v2/app/blobs/uploads/?mount=&from=base'' [] None]
   \<and> take 1 (requests (snd (upload_blob example_env ''app'' '''' ''blobs'' example_world)))
       = [Request POST ''http://localhost:5000/v2/app/blobs/uploads/'' [] None]
   \<and> requests (snd (load_image example_env None ''mount-only.tar.gz'' example_world))
       = [Request POST
            ''http://localhost:5000/v2/app/blobs/uploads/?mount=sha256:aa&from=base'' [] None,
          Request POST ''http://localhost:5000/v2/app/blobs/uploads/'' [] None]"
    by code_simp
  from a c show ?thesis by simp
qed

end
